theory Spec2Isabelle
  imports Complex_Main "HOL-Library.Stream"
begin

section \<open>Python values shared by all models\<close>

text \<open>
  Floating-point numbers are modelled as exact reals: every statement below is about the
  arithmetic the code writes down, not about rounding. A feature map is a Python dict of
  named scalars; it is an association list read with \<open>map_of\<close>. A feature map that is
  \<open>None\<close> or empty is falsy in Python; both are the empty list here.

  Values have the types the code's annotations give them (numbers where it computes with
  numbers, text where it splits text). On such values no statement of a model's \<open>predict\<close>
  raises, except the index errors written out in the form model; the \<open>except\<close> branch of
  a \<open>predict\<close>, which returns the model's default prediction, is not reached otherwise.
\<close>

type_synonym pydict = "(string \<times> real) list"

definition dict_get :: "(string \<times> 'a) list \<Rightarrow> string \<Rightarrow> 'a \<Rightarrow> 'a" where
  \<comment> \<open>\<open>d.get(key, default)\<close>\<close>
  "dict_get d k dflt = (case map_of d k of None \<Rightarrow> dflt | Some v \<Rightarrow> v)"

definition py_round :: "real \<Rightarrow> int" where
  \<comment> \<open>\<open>round(x)\<close> on a float (Python's or NumPy's), with no second argument: the nearest
      integer as an int, a tie going to the even one\<close>
  "py_round x =
     (let f = \<lfloor>x\<rfloor>; d = x - of_int f
      in if d < 1/2 then f else if d > 1/2 then f + 1 else if even f then f else f + 1)"

definition digit_char :: "nat \<Rightarrow> char" where
  "digit_char d = ''0123456789'' ! d"

fun str_nat :: "nat \<Rightarrow> string" where
  "str_nat n = (if n < 10 then [digit_char n] else str_nat (n div 10) @ [digit_char (n mod 10)])"

declare str_nat.simps [simp del]

definition str_int :: "int \<Rightarrow> string" where
  \<comment> \<open>\<open>str(i)\<close>, which an f-string applies to an int\<close>
  "str_int i = (if i < 0 then CHR ''-'' # str_nat (nat (- i)) else str_nat (nat i))"

definition mean :: "real list \<Rightarrow> real" where
  \<comment> \<open>\<open>np.mean\<close>; every caller checks that the list is not empty first\<close>
  "mean xs = sum_list xs / real (length xs)"

record outcome_prediction =
  home_probability :: "real option"
  draw_probability :: "real option"
  away_probability :: "real option"
  predicted_score :: "string option"
  confidence :: "real option"

definition is_normalized :: "'a outcome_prediction_scheme \<Rightarrow> bool" where
  \<comment> \<open>The three probabilities are present, non-negative and sum to 1 within 1e-6.\<close>
  "is_normalized r =
     (case (home_probability r, draw_probability r, away_probability r) of
        (Some h, Some d, Some a) \<Rightarrow> 0 \<le> h \<and> 0 \<le> d \<and> 0 \<le> a \<and> \<bar>h + d + a - 1\<bar> \<le> 1 / 10 ^ 6
      | _ \<Rightarrow> False)"

section \<open>Discrete-state form model (models/hmm.py)\<close>

record hmm_model =
  n_states :: nat
  transition_matrix :: "real list list"
  emission_probs :: "real list list"
  state_probs :: "real list"

record hmm_prediction = outcome_prediction +
  home_state :: nat
  away_state :: nat

definition HMMFormModel_init :: hmm_model where
  "HMMFormModel_init =
     \<lparr> n_states = 3,
       transition_matrix = [[0.6, 0.3, 0.1], [0.3, 0.5, 0.2], [0.2, 0.4, 0.4]],
       emission_probs = [[0.8, 0.15, 0.05], [0.4, 0.4, 0.2], [0.1, 0.3, 0.6]],
       state_probs = [0.33, 0.33, 0.34] \<rparr>"

definition HMMFormModel_fit :: "hmm_model \<Rightarrow> real list \<Rightarrow> hmm_model" where
  "HMMFormModel_fit self results =
     (if length results < 5 then self
      else let win_rate = mean results
           in if win_rate > 0.6 then self\<lparr>state_probs := [0.7, 0.25, 0.05]\<rparr>
              else if win_rate > 0.4 then self\<lparr>state_probs := [0.3, 0.5, 0.2]\<rparr>
              else self\<lparr>state_probs := [0.1, 0.3, 0.6]\<rparr>)"

definition HMMFormModel_get_state_from_form :: "real \<Rightarrow> nat" where
  "HMMFormModel_get_state_from_form form =
     (if form > 0.65 then 0 else if form > 0.35 then 1 else 2)"

definition HMMFormModel_predict_score :: "nat \<Rightarrow> nat \<Rightarrow> string option" where
  \<comment> \<open>\<open>None\<close> is the IndexError of \<open>state_goals[state]\<close>.\<close>
  "HMMFormModel_predict_score hs aws =
     (let state_goals = [1.8, 1.3, 0.8 :: real]
      in if hs < length state_goals \<and> aws < length state_goals
         then Some (str_int (py_round (state_goals ! hs)) @ ''-'' @ str_int (py_round (state_goals ! aws)))
         else None)"

definition HMMFormModel_get_default_prediction :: hmm_prediction where
  "HMMFormModel_get_default_prediction =
     \<lparr> home_probability = Some 0.33, draw_probability = Some 0.34, away_probability = Some 0.33,
       predicted_score = Some ''1-1'', confidence = None, home_state = 1, away_state = 1 \<rparr>"

definition HMMFormModel_predict :: "hmm_model \<Rightarrow> pydict \<Rightarrow> hmm_prediction" where
  \<comment> \<open>Every IndexError of the body ends in the \<open>except\<close> branch, the default prediction.\<close>
  "HMMFormModel_predict self features =
     (let home_form = (if features \<noteq> [] then dict_get features ''home_form'' 0.5 else 0.5);
          away_form = (if features \<noteq> [] then dict_get features ''away_form'' 0.5 else 0.5);
          hs = HMMFormModel_get_state_from_form home_form;
          aws = HMMFormModel_get_state_from_form away_form
      in if hs < length (emission_probs self) \<and> aws < length (emission_probs self)
         then
           (let home_emissions = emission_probs self ! hs;
                away_emissions = emission_probs self ! aws
            in if 0 < length home_emissions \<and> 2 < length away_emissions
               then
                 (let home_prob = home_emissions ! 0 * (1 - away_emissions ! 2);
                      away_prob = away_emissions ! 2 * (1 - home_emissions ! 0);
                      draw_prob = 1.0 - home_prob - away_prob;
                      total = home_prob + draw_prob + away_prob;
                      home_prob' = (if total > 0 then home_prob / total else home_prob);
                      draw_prob' = (if total > 0 then draw_prob / total else draw_prob);
                      away_prob' = (if total > 0 then away_prob / total else away_prob)
                  in case HMMFormModel_predict_score hs aws of
                       None \<Rightarrow> HMMFormModel_get_default_prediction
                     | Some score \<Rightarrow>
                         \<lparr> home_probability = Some home_prob', draw_probability = Some draw_prob',
                           away_probability = Some away_prob', predicted_score = Some score,
                           confidence = None, home_state = hs, away_state = aws \<rparr>)
               else HMMFormModel_get_default_prediction)
         else HMMFormModel_get_default_prediction)"

section \<open>Poisson model (models/poisson.py)\<close>

text \<open>
  \<open>scipy.stats.poisson.pmf\<close> is a library function; the model takes it as the parameter
  \<open>pmf\<close> (\<open>pmf k mu\<close> is the mass at \<open>k\<close>). \<open>poisson_pmf\<close> is the mass function of the
  distribution for a rate \<open>mu \<ge> 0\<close>.
\<close>

definition poisson_pmf :: "nat \<Rightarrow> real \<Rightarrow> real" where
  "poisson_pmf k mu = exp (- mu) * mu ^ k / fact k"

record poisson_model =
  home_lambda :: real
  away_lambda :: real
  max_score :: nat

record poisson_prediction = outcome_prediction +
  home_lambda_out :: real
  away_lambda_out :: real

definition PoissonModel_init :: poisson_model where
  "PoissonModel_init = \<lparr> home_lambda = 1.5, away_lambda = 1.2, max_score = 10 \<rparr>"

definition PoissonModel_fit :: "poisson_model \<Rightarrow> real list \<Rightarrow> real list \<Rightarrow> pydict \<Rightarrow> poisson_model" where
  "PoissonModel_fit self home_goals away_goals features =
     (let hl = (if length home_goals > 0 then max (mean home_goals) 0.1 else 1.5);
          al = (if length away_goals > 0 then max (mean away_goals) 0.1 else 1.2)
      in if features \<noteq> []
         then self\<lparr> home_lambda :=
                      hl * (dict_get features ''home_attack_strength'' 1.0
                            * dict_get features ''away_defense_strength'' 1.0),
                    away_lambda :=
                      al * (dict_get features ''away_attack_strength'' 1.0
                            * dict_get features ''home_defense_strength'' 1.0) \<rparr>
         else self\<lparr> home_lambda := hl, away_lambda := al \<rparr>)"

definition outcome_step ::
    "real list \<Rightarrow> real list \<Rightarrow> nat \<Rightarrow> nat \<Rightarrow> real \<times> real \<times> real \<Rightarrow> real \<times> real \<times> real" where
  \<comment> \<open>The body of the double loop over scorelines, at home score \<open>i\<close> and away score \<open>j\<close>.\<close>
  "outcome_step home_probs away_probs i j acc =
     (case acc of
        (home_win, draw, away_win) \<Rightarrow>
          (let p = home_probs ! i * away_probs ! j
           in if i > j then (home_win + p, draw, away_win)
              else if i = j then (home_win, draw + p, away_win)
              else (home_win, draw, away_win + p)))"

definition outcome_sums :: "nat \<Rightarrow> real list \<Rightarrow> real list \<Rightarrow> real \<times> real \<times> real" where
  \<comment> \<open>The double loop: (home_win, draw, away_win), each starting at 0.\<close>
  "outcome_sums n home_probs away_probs =
     fold (\<lambda>i. fold (outcome_step home_probs away_probs i) [0..<n]) [0..<n] (0, 0, 0)"

definition get_most_likely_score :: "real \<Rightarrow> real \<Rightarrow> string" where
  "get_most_likely_score hl al = str_int (py_round hl) @ ''-'' @ str_int (py_round al)"

definition PoissonModel_predict ::
    "(nat \<Rightarrow> real \<Rightarrow> real) \<Rightarrow> poisson_model \<Rightarrow> pydict \<Rightarrow> poisson_prediction" where
  "PoissonModel_predict pmf self features =
     (let hl = (if features \<noteq> [] then home_lambda self * (0.5 + dict_get features ''home_form'' 0.5)
                else home_lambda self);
          al = (if features \<noteq> [] then away_lambda self * (0.5 + dict_get features ''away_form'' 0.5)
                else away_lambda self);
          home_probs = map (\<lambda>k. pmf k hl) [0..<max_score self];
          away_probs = map (\<lambda>k. pmf k al) [0..<max_score self]
      in case outcome_sums (max_score self) home_probs away_probs of
           (home_win, draw, away_win) \<Rightarrow>
             (let total = home_win + draw + away_win
              in \<lparr> home_probability = Some (if total > 0 then home_win / total else home_win),
                   draw_probability = Some (if total > 0 then draw / total else draw),
                   away_probability = Some (if total > 0 then away_win / total else away_win),
                   predicted_score = Some (get_most_likely_score hl al),
                   confidence = None,
                   home_lambda_out = hl, away_lambda_out = al \<rparr>))"

section \<open>Negative-binomial model (models/negative_binomial.py)\<close>


record nb_model =
  home_mu :: real
  home_alpha :: real
  away_mu :: real
  away_alpha :: real
  max_score :: nat

record nb_prediction = outcome_prediction +
  home_mu_out :: real
  away_mu_out :: real
  home_alpha_out :: real
  away_alpha_out :: real

definition NegativeBinomialModel_init :: nb_model where
  "NegativeBinomialModel_init =
     \<lparr> home_mu = 1.5, home_alpha = 1.0, away_mu = 1.2, away_alpha = 1.0, max_score = 10 \<rparr>"


definition nbinom_pmf :: "nat \<Rightarrow> real \<Rightarrow> real \<Rightarrow> real" where
  \<comment> \<open>the mass function of the negative binomial distribution with shape \<open>n\<close> and success
      probability \<open>p\<close>\<close>
  "nbinom_pmf k n p = ((n + real k - 1) gchoose k) * p powr n * (1 - p) ^ k"

text \<open>
  \<open>scipy.stats.nbinom.pmf\<close> is the parameter \<open>pmf\<close> of the model of predict, as for the
  Poisson model. The success probability \<open>alpha / (alpha + mu)\<close> is a float division: with
  \<open>alpha + mu = 0\<close> it raises ZeroDivisionError on Python floats (the parameters of the
  constructor), and the \<open>except\<close> branch returns the default prediction. Parameters that a
  fit has replaced by NumPy floats divide to \<open>inf\<close> or \<open>nan\<close> instead, which has no value in
  the reals; the statements about this predict are made where \<open>alpha + mu \<noteq> 0\<close>.
\<close>

definition NegativeBinomialModel_get_default_prediction :: nb_prediction where
  "NegativeBinomialModel_get_default_prediction =
     \<lparr> home_probability = Some 0.33, draw_probability = Some 0.34, away_probability = Some 0.33,
       predicted_score = Some ''1-1'', confidence = None,
       home_mu_out = 1.5, away_mu_out = 1.2, home_alpha_out = 1.0, away_alpha_out = 1.0 \<rparr>"

definition NegativeBinomialModel_adjusted_mu :: "nb_model \<Rightarrow> pydict \<Rightarrow> real \<times> real" where
  \<comment> \<open>the first lines of predict: (home_mu, away_mu), adjusted with the features\<close>
  "NegativeBinomialModel_adjusted_mu self features =
     (if features \<noteq> []
      then (home_mu self * (0.5 + dict_get features ''home_form'' 0.5),
            away_mu self * (0.5 + dict_get features ''away_form'' 0.5))
      else (home_mu self, away_mu self))"

definition NegativeBinomialModel_predict ::
    "(nat \<Rightarrow> real \<Rightarrow> real \<Rightarrow> real) \<Rightarrow> nb_model \<Rightarrow> pydict \<Rightarrow> nb_prediction" where
  \<comment> \<open>\<open>pmf k n p\<close> stands for \<open>scipy.stats.nbinom.pmf(k, n, p)\<close>.\<close>
  "NegativeBinomialModel_predict pmf self features =
     (case NegativeBinomialModel_adjusted_mu self features of
        (hm, am) \<Rightarrow>
          (let ha = home_alpha self;
               aa = away_alpha self
           in if ha + hm = 0 \<or> aa + am = 0
              then NegativeBinomialModel_get_default_prediction
              else
                (let home_probs = map (\<lambda>k. pmf k ha (ha / (ha + hm))) [0..<max_score self];
                     away_probs = map (\<lambda>k. pmf k aa (aa / (aa + am))) [0..<max_score self]
                 in case outcome_sums (max_score self) home_probs away_probs of
                      (home_win, draw, away_win) \<Rightarrow>
                        (let total = home_win + draw + away_win
                         in \<lparr> home_probability =
                                Some (if total > 0 then home_win / total else home_win),
                              draw_probability = Some (if total > 0 then draw / total else draw),
                              away_probability =
                                Some (if total > 0 then away_win / total else away_win),
                              predicted_score = Some (get_most_likely_score hm am),
                              confidence = None,
                              home_mu_out = hm, away_mu_out = am,
                              home_alpha_out = ha, away_alpha_out = aa \<rparr>))))"

section \<open>Hawkes model (models/hawkes.py)\<close>

text \<open>
  The random source is explicit: a stream of the values that successive calls of
  \<open>np.random.uniform()\<close> return, each in \<open>[0, 1)\<close>; every function that draws returns the
  rest of the stream. The simulated clock \<open>t\<close> is a float that can leave the reals:
  \<open>-log u / intensity\<close> is \<open>+inf\<close> when the intensity is 0 or when \<open>u = 0\<close> and the
  intensity is positive, and \<open>-inf\<close> when \<open>u = 0\<close> and the intensity is negative (NumPy
  floats divide by zero without raising). After a step of \<open>+inf\<close> the clock is \<open>+inf\<close> or
  \<open>nan\<close>, no comparison \<open>t < match_length\<close> holds any more and the loop ends; a clock at
  \<open>-inf\<close> stays below \<open>match_length\<close>.
\<close>

datatype ftime = Fin real | NegInf

fun ft_less :: "ftime \<Rightarrow> real \<Rightarrow> bool" where
  "ft_less (Fin r) m = (r < m)"
| "ft_less NegInf m = True"

definition advance :: "ftime \<Rightarrow> real \<Rightarrow> real \<Rightarrow> ftime option" where
  \<comment> \<open>\<open>t += -np.log(u) / intensity\<close>; \<open>None\<close> when the new clock is \<open>+inf\<close> or \<open>nan\<close>\<close>
  "advance t u intensity =
     (if intensity = 0 \<or> (u = 0 \<and> intensity > 0) then None
      else if u = 0 then Some NegInf
      else (case t of Fin r \<Rightarrow> Some (Fin (r + (- ln u / intensity))) | NegInf \<Rightarrow> Some NegInf))"

record hawkes_model =
  kernel_type :: string
  lambda0_home :: real
  lambda0_away :: real
  alpha :: real
  beta :: real
  max_score :: nat

record hawkes_prediction = outcome_prediction +
  home_goals :: nat
  away_goals :: nat

definition HawkesModel_init :: hawkes_model where
  "HawkesModel_init =
     \<lparr> kernel_type = ''exponential'', lambda0_home = 0.05, lambda0_away = 0.04,
       alpha = 0.2, beta = 1.0, max_score = 10 \<rparr>"

definition HawkesModel_fit :: "hawkes_model \<Rightarrow> real list \<Rightarrow> real list \<Rightarrow> pydict \<Rightarrow> hawkes_model" where
  "HawkesModel_fit self home_goals_hist away_goals_hist features =
     (let lh = (if length home_goals_hist > 0 then max 0.01 (mean home_goals_hist * 0.05)
                else lambda0_home self);
          la = (if length away_goals_hist > 0 then max 0.01 (mean away_goals_hist * 0.04)
                else lambda0_away self)
      in if features \<noteq> []
         then self\<lparr> lambda0_home := lh * (0.5 + dict_get features ''home_form'' 0.5),
                    lambda0_away := la * (0.5 + dict_get features ''away_form'' 0.5) \<rparr>
         else self\<lparr> lambda0_home := lh, lambda0_away := la \<rparr>)"

definition HawkesModel_intensity :: "hawkes_model \<Rightarrow> real \<Rightarrow> real list \<Rightarrow> real \<Rightarrow> real" where
  "HawkesModel_intensity self t goal_times base_intensity =
     fold (\<lambda>goal_time intensity.
             if goal_time < t then intensity + alpha self * exp (- beta self * (t - goal_time))
             else intensity) goal_times base_intensity"

partial_function (option) simulate_run ::
    "hawkes_model \<Rightarrow> real \<Rightarrow> real \<Rightarrow> ftime \<Rightarrow> real \<Rightarrow> ftime list \<Rightarrow> real stream
       \<Rightarrow> (ftime list \<times> real stream) option" where
  "simulate_run self base_intensity match_length t intensity goals rs =
     (if ft_less t match_length
      then (case advance t (shd rs) intensity of
              None \<Rightarrow> Some (goals, stl rs)
            | Some t' \<Rightarrow>
                if ft_less t' match_length
                then (if shd (stl rs) < intensity / (base_intensity * 2)
                      then simulate_run self base_intensity match_length t'
                             (base_intensity + alpha self * exp (- beta self * 0))
                             (goals @ [t']) (stl (stl rs))
                      else simulate_run self base_intensity match_length t' intensity goals
                             (stl (stl rs)))
                else simulate_run self base_intensity match_length t' intensity goals (stl rs))
      else Some (goals, rs))"

fun simulate_runs ::
    "hawkes_model \<Rightarrow> real \<Rightarrow> real \<Rightarrow> nat \<Rightarrow> nat list \<Rightarrow> real stream
       \<Rightarrow> (nat list \<times> real stream) option" where
  \<comment> \<open>\<open>for _ in range(simulations)\<close>: one run each, its number of goals appended\<close>
  "simulate_runs self base_intensity match_length 0 goal_counts rs = Some (goal_counts, rs)"
| "simulate_runs self base_intensity match_length (Suc n) goal_counts rs =
     (case simulate_run self base_intensity match_length (Fin 0) base_intensity [] rs of
        None \<Rightarrow> None
      | Some (goals, rs') \<Rightarrow>
          simulate_runs self base_intensity match_length n (goal_counts @ [length goals]) rs')"

definition HawkesModel_simulate_goals ::
    "hawkes_model \<Rightarrow> real \<Rightarrow> real \<Rightarrow> nat \<Rightarrow> real stream \<Rightarrow> (nat list \<times> real stream) option" where
  \<comment> \<open>Returns \<open>np.array(goal_counts)\<close>: one entry per simulation. \<open>None\<close>: a run never ends.\<close>
  "HawkesModel_simulate_goals self base_intensity match_length simulations rs =
     simulate_runs self base_intensity match_length simulations [] rs"

definition HawkesModel_get_default_prediction :: hawkes_prediction where
  "HawkesModel_get_default_prediction =
     \<lparr> home_probability = Some 0.35, draw_probability = Some 0.32, away_probability = Some 0.33,
       predicted_score = Some ''1-1'', confidence = None, home_goals = 1, away_goals = 1 \<rparr>"

definition HawkesModel_predict ::
    "hawkes_model \<Rightarrow> pydict \<Rightarrow> real \<Rightarrow> real stream \<Rightarrow> (hawkes_prediction \<times> real stream) option" where
  "HawkesModel_predict self features match_length rs =
     (case HawkesModel_simulate_goals self (lambda0_home self) match_length 100 rs of
        None \<Rightarrow> None
      | Some (home_goals_simulated, rs1) \<Rightarrow>
          (case HawkesModel_simulate_goals self (lambda0_away self) match_length 100 rs1 of
             None \<Rightarrow> None
           | Some (away_goals_simulated, rs2) \<Rightarrow>
               (let num_home_goals = length home_goals_simulated;
                    num_away_goals = length away_goals_simulated;
                    total_goals = num_home_goals + num_away_goals;
                    home_intensity = lambda0_home self * match_length;
                    away_intensity = lambda0_away self * match_length;
                    total_intensity = home_intensity + away_intensity;
                    home_prob = (if total_goals > 0
                                 then (if total_intensity > 0 then home_intensity / total_intensity
                                       else 0.45)
                                 else 0.45);
                    away_prob = (if total_goals > 0
                                 then (if total_intensity > 0 then away_intensity / total_intensity
                                       else 0.45)
                                 else 0.45);
                    draw_prob = max 0.0 (1.0 - home_prob - away_prob);
                    total_prob = home_prob + draw_prob + away_prob
                in Some (\<lparr> home_probability =
                             Some (if total_prob > 0 then home_prob / total_prob else home_prob),
                           draw_probability =
                             Some (if total_prob > 0 then draw_prob / total_prob else draw_prob),
                           away_probability =
                             Some (if total_prob > 0 then away_prob / total_prob else away_prob),
                           predicted_score = Some (str_nat num_home_goals @ ''-'' @ str_nat num_away_goals),
                           confidence = None,
                           home_goals = num_home_goals, away_goals = num_away_goals \<rparr>, rs2))))"

section \<open>Mixture-of-experts combiner (models/mixture_expert.py)\<close>

definition is_space :: "char \<Rightarrow> bool" where
  \<comment> \<open>the characters (code points below 256) that \<open>int()\<close> skips around the digits:
      space, 0x09 to 0x0D, and the two of Latin-1, 0x85 and 0xA0\<close>
  "is_space c = (c \<in> set [CHR '' '', CHR 0x09, CHR 0x0A, CHR 0x0B, CHR 0x0C, CHR 0x0D,
                          CHR 0x85, CHR 0xA0])"

definition strip :: "string \<Rightarrow> string" where
  "strip s = rev (dropWhile is_space (rev (dropWhile is_space s)))"

definition is_digit :: "char \<Rightarrow> bool" where
  "is_digit c = ((48::nat) \<le> of_char c \<and> of_char c \<le> (57::nat))"

definition digit_val :: "char \<Rightarrow> nat" where
  "digit_val c = of_char c - (48::nat)"

fun parse_digits :: "nat \<Rightarrow> string \<Rightarrow> nat option" where
  \<comment> \<open>the rest of a decimal literal after a digit; one underscore may stand between two digits\<close>
  "parse_digits acc [] = Some acc"
| "parse_digits acc [c] = (if is_digit c then Some (10 * acc + digit_val c) else None)"
| "parse_digits acc (c # d # ds) =
     (if is_digit c then parse_digits (10 * acc + digit_val c) (d # ds)
      else if c = CHR ''_'' \<and> is_digit d then parse_digits (10 * acc + digit_val d) ds
      else None)"

definition py_int :: "string \<Rightarrow> int option" where
  \<comment> \<open>\<open>int(s)\<close> on a text of code points below 256; \<open>None\<close> is the ValueError\<close>
  "py_int s =
     (case strip s of
        [] \<Rightarrow> None
      | c # cs \<Rightarrow>
          (let neg = (c = CHR ''-'');
               body = (if c = CHR ''-'' \<or> c = CHR ''+'' then cs else c # cs)
           in case body of
                [] \<Rightarrow> None
              | d # ds \<Rightarrow>
                  if is_digit d
                  then map_option (\<lambda>n. if neg then - int n else int n) (parse_digits (digit_val d) ds)
                  else None))"

fun split_on :: "char \<Rightarrow> string \<Rightarrow> string list" where
  \<comment> \<open>\<open>s.split(sep)\<close> for a separator of one character\<close>
  "split_on c [] = [[]]"
| "split_on c (x # xs) =
     (if x = c then [] # split_on c xs
      else (case split_on c xs of p # ps \<Rightarrow> (x # p) # ps | [] \<Rightarrow> [[x]]))"

fun dict_set :: "(string \<times> 'a) list \<Rightarrow> string \<Rightarrow> 'a \<Rightarrow> (string \<times> 'a) list" where
  \<comment> \<open>\<open>d[key] = v\<close>: an existing key keeps its place, a new one goes last\<close>
  "dict_set [] k v = [(k, v)]"
| "dict_set ((k', v') # d) k v = (if k' = k then (k, v) # d else (k', v') # dict_set d k v)"

record moe_model =
  weights :: "(string \<times> real) list"
  model_performances :: "(string \<times> real) list"

record moe_prediction = outcome_prediction +
  weights_out :: "(string \<times> real) list"
  ensemble_type :: string

definition MixtureOfExpertsModel_init :: moe_model where
  "MixtureOfExpertsModel_init =
     \<lparr> weights = [(''poisson'', 0.25), (''negative_binomial'', 0.25), (''hawkes'', 0.25),
                  (''hmm'', 0.25)],
       model_performances = [] \<rparr>"

definition MixtureOfExpertsModel_fit_weights :: "moe_model \<Rightarrow> (string \<times> real) list \<Rightarrow> moe_model" where
  "MixtureOfExpertsModel_fit_weights self perfs =
     (let total_perf = sum_list (map snd perfs);
          ws = (if total_perf > 0
                then fold (\<lambda>(model_name, perf) w. dict_set w model_name (perf / total_perf)) perfs
                       (weights self)
                else weights self)
      in self\<lparr> weights := ws, model_performances := perfs \<rparr>)"

text \<open>
  The arithmetic of predict is modelled over the reals, as everywhere: the floating-point
  rounding of each operation (a relative error of at most \<open>2 ^ -53\<close>) is not modelled, so
  statements about its probabilities are made up to a tolerance, or as inequalities between
  numbers that differ by more than the rounding. \<open>np.mean\<close> of the integer scores is
  computed in float64; it is the exact mean when the scores are below \<open>2 ^ 51\<close> (their
  partial sums are then below \<open>2 ^ 53\<close>), and the statements about \<open>_combine_scores\<close> are made
  for such scores.
\<close>

definition get0 :: "real option \<Rightarrow> real" where
  \<comment> \<open>\<open>pred.get(key, 0)\<close> on a probability field\<close>
  "get0 v = (case v of None \<Rightarrow> 0 | Some x \<Rightarrow> x)"

definition weighted_step ::
    "(string \<times> outcome_prediction) list \<Rightarrow> string \<times> real \<Rightarrow> real \<times> real \<times> real
       \<Rightarrow> real \<times> real \<times> real" where
  \<comment> \<open>The body of the loop over \<open>self.weights.items()\<close>.\<close>
  "weighted_step preds item acc =
     (case (item, acc) of
        ((model_type, weight), (weighted_home, weighted_draw, weighted_away)) \<Rightarrow>
          (case map_of preds model_type of
             None \<Rightarrow> (weighted_home, weighted_draw, weighted_away)
           | Some pred \<Rightarrow>
               (weighted_home + weight * get0 (home_probability pred),
                weighted_draw + weight * get0 (draw_probability pred),
                weighted_away + weight * get0 (away_probability pred))))"

definition weighted_sums ::
    "(string \<times> real) list \<Rightarrow> (string \<times> outcome_prediction) list \<Rightarrow> real \<times> real \<times> real" where
  \<comment> \<open>(weighted_home, weighted_draw, weighted_away), each starting at 0.\<close>
  "weighted_sums ws preds = fold (weighted_step preds) ws (0, 0, 0)"

definition collect_step :: "outcome_prediction \<Rightarrow> int list \<times> int list \<Rightarrow> int list \<times> int list" where
  \<comment> \<open>The body of the loop of \<open>_combine_scores\<close>. A second part that does not parse raises
      after the first part was appended.\<close>
  "collect_step pred acc =
     (case acc of
        (home_scores, away_scores) \<Rightarrow>
          (let score_str = (case predicted_score pred of None \<Rightarrow> ''1-1'' | Some s \<Rightarrow> s);
               parts = split_on CHR ''-'' score_str
           in if length parts = 2
              then (case py_int (parts ! 0) of
                      None \<Rightarrow> (home_scores, away_scores)
                    | Some h \<Rightarrow>
                        (case py_int (parts ! 1) of
                           None \<Rightarrow> (home_scores @ [h], away_scores)
                         | Some a \<Rightarrow> (home_scores @ [h], away_scores @ [a])))
              else (home_scores, away_scores)))"

definition collect_scores :: "(string \<times> outcome_prediction) list \<Rightarrow> int list \<times> int list" where
  \<comment> \<open>(home_scores, away_scores) after the loop over \<open>predictions.values()\<close>\<close>
  "collect_scores preds = fold collect_step (map snd preds) ([], [])"

definition MixtureOfExpertsModel_combine_scores :: "(string \<times> outcome_prediction) list \<Rightarrow> string" where
  "MixtureOfExpertsModel_combine_scores predictions =
     (case collect_scores predictions of
        (home_scores, away_scores) \<Rightarrow>
          if home_scores \<noteq> [] \<and> away_scores \<noteq> []
          then str_int (py_round (mean (map real_of_int home_scores))) @ ''-''
               @ str_int (py_round (mean (map real_of_int away_scores)))
          else ''1-1'')"

definition MixtureOfExpertsModel_predict ::
    "moe_model \<Rightarrow> (string \<times> outcome_prediction) list \<Rightarrow> moe_prediction" where
  "MixtureOfExpertsModel_predict self predictions =
     (case weighted_sums (weights self) predictions of
        (weighted_home, weighted_draw, weighted_away) \<Rightarrow>
          (let total = weighted_home + weighted_draw + weighted_away;
               confidences =
                 map (\<lambda>pred. case confidence pred of
                                Some c \<Rightarrow> c
                              | None \<Rightarrow> max (max (get0 (home_probability pred))
                                                  (get0 (draw_probability pred)))
                                             (get0 (away_probability pred)))
                     (map snd predictions)
           in \<lparr> home_probability = Some (if total > 0 then weighted_home / total else weighted_home),
                draw_probability = Some (if total > 0 then weighted_draw / total else weighted_draw),
                away_probability = Some (if total > 0 then weighted_away / total else weighted_away),
                predicted_score = Some (MixtureOfExpertsModel_combine_scores predictions),
                confidence = Some (if confidences \<noteq> [] then mean confidences else 0.5),
                weights_out = weights self,
                ensemble_type = ''mixture_of_experts'' \<rparr>))"

section \<open>Backtesting engine (backtest/backtest.py)\<close>

text \<open>
  The persistence layer is two tables, \<open>predictions\<close> and \<open>matches\<close>. The probability
  and score columns of \<open>predictions\<close> are nullable: a NULL (which is also what the database
  returns for a stored NaN) reaches the code as Python's \<open>None\<close>, here \<open>None\<close>. A row of the
  query of \<open>_backtest_single_model\<close> is the tuple (home_probability, draw_probability,
  away_probability, predicted_score, home_score, away_score); the code reads it by position
  (\<open>row[:3]\<close>, \<open>row[4:]\<close>). Dates are compared by the database, so any linear order stands
  for them. A database that cannot be read (an exception of the connection or the query)
  is \<open>None\<close>.

  Each \<open>_calculate_...\<close> function runs in a \<open>try\<close> whose \<open>except\<close> branch returns 0.0: a
  comparison or an arithmetic operation on \<open>None\<close> raises TypeError and ends there. The
  loops below carry \<open>None\<close> for a raised exception.
\<close>

record prediction_row =
  p_match_id :: int
  p_model_type :: string
  p_home_probability :: "real option"
  p_draw_probability :: "real option"
  p_away_probability :: "real option"
  p_predicted_score :: "string option"

record 'd match_row =
  m_id :: int
  m_league_id :: int
  m_match_date :: 'd
  m_home_score :: "int option"
  m_away_score :: "int option"

record 'd database =
  tbl_predictions :: "prediction_row list"
  tbl_matches :: "'d match_row list"

type_synonym backtest_row =
  "real option \<times> real option \<times> real option \<times> string option \<times> int \<times> int"

record metrics =
  accuracy :: real
  log_loss :: real
  brier_score :: real
  count :: nat
  model :: "string option"

definition backtest_query ::
    "('d::linorder) database \<Rightarrow> string \<Rightarrow> int \<Rightarrow> 'd \<Rightarrow> 'd \<Rightarrow> backtest_row list" where
  \<comment> \<open>SELECT ... FROM predictions p JOIN matches m ON p.match_id = m.id WHERE ...\<close>
  "backtest_query db model_type league_id start_date end_date =
     concat (map (\<lambda>p. concat (map (\<lambda>m.
       if p_match_id p = m_id m \<and> p_model_type p = model_type \<and> m_league_id m = league_id
          \<and> start_date \<le> m_match_date m \<and> m_match_date m \<le> end_date
       then (case (m_home_score m, m_away_score m) of
               (Some hsc, Some asc) \<Rightarrow>
                 [(p_home_probability p, p_draw_probability p, p_away_probability p,
                   p_predicted_score p, hsc, asc)]
             | _ \<Rightarrow> [])
       else []) (tbl_matches db))) (tbl_predictions db))"

fun max_key_from :: "string \<times> real \<Rightarrow> (string \<times> real option) list \<Rightarrow> string option" where
  \<comment> \<open>the scan of \<open>max(d, key=d.get)\<close>: a later key replaces the best one only if its
      value is strictly greater; comparing with \<open>None\<close> raises TypeError\<close>
  "max_key_from best [] = Some (fst best)"
| "max_key_from best ((k, v) # kvs) =
     (case v of
        None \<Rightarrow> None
      | Some x \<Rightarrow> if x > snd best then max_key_from (k, x) kvs else max_key_from best kvs)"

definition max_key :: "(string \<times> real option) list \<Rightarrow> string option" where
  \<comment> \<open>\<open>max(d, key=d.get)\<close> over the keys of \<open>d\<close> in insertion order; \<open>None\<close> is an
      exception: ValueError on an empty dict, TypeError on a comparison with \<open>None\<close>\<close>
  "max_key d =
     (case d of
        [] \<Rightarrow> None
      | (k, v) # kvs \<Rightarrow>
          (case v of
             None \<Rightarrow> if kvs = [] then Some k else None
           | Some x \<Rightarrow> max_key_from (k, x) kvs))"

definition accuracy_step :: "backtest_row \<Rightarrow> nat option \<Rightarrow> nat option" where
  \<comment> \<open>the body of the loop of \<open>_calculate_accuracy\<close>\<close>
  "accuracy_step row acc =
     (case (row, acc) of
        (_, None) \<Rightarrow> None
      | ((home_prob, draw_prob, away_prob, _, home_score, away_score), Some correct) \<Rightarrow>
          (let actual = (if home_score > away_score then ''home''
                         else if home_score = away_score then ''draw'' else ''away'');
               probs = [(''home'', home_prob), (''draw'', draw_prob), (''away'', away_prob)]
           in case max_key probs of
                None \<Rightarrow> None
              | Some predicted \<Rightarrow> Some (if actual = predicted then correct + 1 else correct)))"

definition calculate_accuracy :: "backtest_row list \<Rightarrow> real" where
  "calculate_accuracy rows =
     (case fold accuracy_step rows (Some 0) of
        None \<Rightarrow> 0.0
      | Some correct \<Rightarrow> if rows \<noteq> [] then real correct / real (length rows) else 0.0)"

definition log_loss_step :: "backtest_row \<Rightarrow> real option \<Rightarrow> real option" where
  \<comment> \<open>the body of the loop of \<open>_calculate_log_loss\<close>; \<open>min(None, ...)\<close> raises TypeError\<close>
  "log_loss_step row acc =
     (case (row, acc) of
        (_, None) \<Rightarrow> None
      | ((home_prob, draw_prob, away_prob, _, home_score, away_score), Some total_loss) \<Rightarrow>
          (let epsilon = 1 / 10 ^ 15;
               actual_prob = (if home_score > away_score then home_prob
                              else if home_score = away_score then draw_prob
                              else away_prob)
           in case actual_prob of
                None \<Rightarrow> None
              | Some q \<Rightarrow> Some (total_loss + - ln (max (min q (1.0 - epsilon)) epsilon))))"

definition calculate_log_loss :: "backtest_row list \<Rightarrow> real" where
  "calculate_log_loss rows =
     (case fold log_loss_step rows (Some 0) of
        None \<Rightarrow> 0.0
      | Some total_loss \<Rightarrow> if rows \<noteq> [] then total_loss / real (length rows) else 0.0)"

definition brier_step :: "backtest_row \<Rightarrow> real option \<Rightarrow> real option" where
  \<comment> \<open>the body of the loop of \<open>_calculate_brier_score\<close>; \<open>predicted - actual\<close> raises
      TypeError when one of the three probabilities is \<open>None\<close>\<close>
  "brier_step row acc =
     (case (row, acc) of
        (_, None) \<Rightarrow> None
      | ((home_prob, draw_prob, away_prob, _, home_score, away_score), Some total_score) \<Rightarrow>
          (let actual = (if home_score > away_score then [1, 0, 0]
                         else if home_score = away_score then [0, 1, 0]
                         else [0, 0, 1 :: real])
           in case (home_prob, draw_prob, away_prob) of
                (Some h, Some d, Some a) \<Rightarrow>
                  Some (total_score + mean (map (\<lambda>(q, e). (q - e) ^ 2) (zip [h, d, a] actual)))
              | _ \<Rightarrow> None))"

definition calculate_brier_score :: "backtest_row list \<Rightarrow> real" where
  "calculate_brier_score rows =
     (case fold brier_step rows (Some 0) of
        None \<Rightarrow> 0.0
      | Some total_score \<Rightarrow> if rows \<noteq> [] then total_score / real (length rows) else 0.0)"

definition backtest_single_model ::
    "('d::linorder) database option \<Rightarrow> int \<Rightarrow> 'd \<Rightarrow> 'd \<Rightarrow> string \<Rightarrow> metrics" where
  "backtest_single_model dbo league_id start_date end_date model_type =
     (case dbo of
        None \<Rightarrow> \<lparr> accuracy = 0.0, log_loss = 0.0, brier_score = 0.0, count = 0, model = None \<rparr>
      | Some db \<Rightarrow>
          (let rows = backtest_query db model_type league_id start_date end_date
           in if rows = []
              then \<lparr> accuracy = 0.0, log_loss = 0.0, brier_score = 0.0, count = 0, model = None \<rparr>
              else \<lparr> accuracy = calculate_accuracy rows,
                     log_loss = calculate_log_loss rows,
                     brier_score = calculate_brier_score rows,
                     count = length rows,
                     model = Some model_type \<rparr>))"

definition backtest_models ::
    "('d::linorder) database option \<Rightarrow> int \<Rightarrow> 'd \<Rightarrow> 'd \<Rightarrow> string list option
       \<Rightarrow> (string \<times> metrics) list" where
  "backtest_models dbo league_id start_date end_date models =
     (let ms = (case models of
                  None \<Rightarrow> [''poisson'', ''negative_binomial'', ''hawkes'', ''hmm'', ''ensemble'']
                | Some l \<Rightarrow> l)
      in fold (\<lambda>m results. dict_set results m
                 (backtest_single_model dbo league_id start_date end_date m)) ms [])"

text \<open>
  Calibration. \<open>np.linspace\<close> is a library function that computes its values in floating
  point. Its value \<open>np.linspace(0, 1, bins + 1)\<close>, a non-decreasing list of \<open>bins + 1\<close>
  numbers from 0 to 1, is the parameter \<open>edges\<close>. A row of the query is (home_probability,
  home_score, away_score); a home probability that is \<open>None\<close> raises TypeError in the first
  comparison with a bin edge.
\<close>

type_synonym calibration_row = "real option \<times> int \<times> int"

record calibration =
  bin_confidence :: "real list"
  bin_accuracy :: "real list"
  bin_edges :: "real list"

definition calibration_query ::
    "'d database \<Rightarrow> string \<Rightarrow> int \<Rightarrow> calibration_row list" where
  "calibration_query db model_type league_id =
     concat (map (\<lambda>p. concat (map (\<lambda>m.
       if p_match_id p = m_id m \<and> p_model_type p = model_type \<and> m_league_id m = league_id
       then (case (m_home_score m, m_away_score m) of
               (Some hsc, Some asc) \<Rightarrow> [(p_home_probability p, hsc, asc)]
             | _ \<Rightarrow> [])
       else []) (tbl_matches db))) (tbl_predictions db))"

definition present_rows :: "calibration_row list \<Rightarrow> (real \<times> int \<times> int) list option" where
  \<comment> \<open>the rows with their home probabilities, \<open>None\<close> when one of them is \<open>None\<close>\<close>
  "present_rows rows = those (map (\<lambda>(p, hsc, asc). map_option (\<lambda>x. (x, hsc, asc)) p) rows)"

definition bin_rows ::
    "real list \<Rightarrow> calibration_row list \<Rightarrow> nat \<Rightarrow> (real \<times> int \<times> int) list option" where
  \<comment> \<open>the rows of bin \<open>i\<close>: \<open>bin_edges[i] <= row[0] <= bin_edges[i + 1]\<close>; \<open>None\<close> is the
      TypeError of a comparison with \<open>None\<close>\<close>
  "bin_rows edges rows i =
     map_option (filter (\<lambda>(x, _, _). edges ! i \<le> x \<and> x \<le> edges ! (i + 1))) (present_rows rows)"

definition calibration_step ::
    "real list \<Rightarrow> calibration_row list \<Rightarrow> nat \<Rightarrow> (real list \<times> real list) option
       \<Rightarrow> (real list \<times> real list) option" where
  \<comment> \<open>the body of the loop over the bins, on (bin_accuracy, bin_confidence)\<close>
  "calibration_step edges rows i acc =
     (case acc of
        None \<Rightarrow> None
      | Some (acc_list, conf_list) \<Rightarrow>
          (case bin_rows edges rows i of
             None \<Rightarrow> None
           | Some brs \<Rightarrow>
               Some (if brs \<noteq> []
                     then (acc_list @ [real (length (filter (\<lambda>(_, hsc, asc). hsc > asc) brs))
                                       / real (length brs)],
                           conf_list @ [mean (map fst brs)])
                     else (acc_list, conf_list))))"

definition calibration_of_rows :: "real list \<Rightarrow> nat \<Rightarrow> calibration_row list \<Rightarrow> calibration" where
  \<comment> \<open>the computation of \<open>get_calibration_data\<close> on the rows of its query\<close>
  "calibration_of_rows edges bins rows =
     (case fold (calibration_step edges rows) [0..<bins] (Some ([], [])) of
        None \<Rightarrow> \<lparr> bin_confidence = [], bin_accuracy = [], bin_edges = [] \<rparr>
      | Some (acc_list, conf_list) \<Rightarrow>
          \<lparr> bin_confidence = conf_list, bin_accuracy = acc_list, bin_edges = edges \<rparr>)"

definition get_calibration_data ::
    "real list \<Rightarrow> 'd database option \<Rightarrow> int \<Rightarrow> string \<Rightarrow> nat \<Rightarrow> calibration" where
  "get_calibration_data edges dbo league_id model_type bins =
     (case dbo of
        None \<Rightarrow> \<lparr> bin_confidence = [], bin_accuracy = [], bin_edges = [] \<rparr>
      | Some db \<Rightarrow> calibration_of_rows edges bins (calibration_query db model_type league_id))"

section \<open>Feature builder (prediction/predict.py)\<close>

text \<open>
  \<open>get_team_stats\<close> is the lookup of a team's row of the \<open>team_stats\<close> table, \<open>None\<close> when the
  team has none (the code then reads the defaults from an empty dict). Its columns are
  taken as numbers (not NULL). \<open>news_sentiment name\<close> stands for
  \<open>analyze_sentiment(get_team_news(name) or [])\<close> of the sentiment source, \<open>None\<close> when it
  raises; any exception makes the builder return the empty feature map.
\<close>

record team_stats =
  goals_for :: int
  goals_against :: int
  form_rating :: real

definition build_features ::
    "(int \<Rightarrow> team_stats option) \<Rightarrow> (string \<Rightarrow> real option) \<Rightarrow> int \<Rightarrow> int \<Rightarrow> string \<Rightarrow> string
       \<Rightarrow> bool \<Rightarrow> pydict" where
  "build_features get_team_stats news_sentiment home_team_id away_team_id home_team_name
       away_team_name use_news =
     (let home_stats = get_team_stats home_team_id;
          away_stats = get_team_stats away_team_id;
          home_form = (case home_stats of None \<Rightarrow> 0.5 | Some st \<Rightarrow> form_rating st);
          away_form = (case away_stats of None \<Rightarrow> 0.5 | Some st \<Rightarrow> form_rating st);
          home_gf = (case home_stats of None \<Rightarrow> 0 | Some st \<Rightarrow> goals_for st);
          home_ga = (case home_stats of None \<Rightarrow> 1 | Some st \<Rightarrow> goals_against st);
          away_gf = (case away_stats of None \<Rightarrow> 0 | Some st \<Rightarrow> goals_for st);
          away_ga = (case away_stats of None \<Rightarrow> 1 | Some st \<Rightarrow> goals_against st);
          base = [(''home_form'', home_form),
                  (''away_form'', away_form),
                  (''home_attack_strength'', if home_gf > 0 then 1.0 + real_of_int home_gf / 30.0 else 1.0),
                  (''home_defense_strength'', if home_ga > 0 then 1.0 - real_of_int home_ga / 30.0 else 1.0),
                  (''away_attack_strength'', if away_gf > 0 then 1.0 + real_of_int away_gf / 30.0 else 1.0),
                  (''away_defense_strength'', if away_ga > 0 then 1.0 - real_of_int away_ga / 30.0 else 1.0),
                  (''home_advantage'', 1.05)]
      in if use_news
         then (case news_sentiment home_team_name of
                 None \<Rightarrow> []
               | Some hn \<Rightarrow>
                   (case news_sentiment away_team_name of
                      None \<Rightarrow> []
                    | Some an \<Rightarrow>
                        base @ [(''home_news_sentiment'', hn), (''away_news_sentiment'', an)]))
         else base @ [(''home_news_sentiment'', 0.5), (''away_news_sentiment'', 0.5)])"

section \<open>The specification's wording of two computations\<close>


definition spec_bucket :: "int \<Rightarrow> int \<Rightarrow> string" where
  \<comment> \<open>the bucket of the actual final score\<close>
  "spec_bucket home_score away_score =
     (if home_score > away_score then ''home''
      else if home_score = away_score then ''draw'' else ''away'')"

definition spec_argmax :: "real \<Rightarrow> real \<Rightarrow> real \<Rightarrow> string" where
  \<comment> \<open>the argmax of the three probabilities, a tie going to the first of home, draw, away\<close>
  "spec_argmax h d a =
     (if h = max h (max d a) then ''home''
      else if d = max h (max d a) then ''draw'' else ''away'')"

definition row_complete :: "backtest_row \<Rightarrow> bool" where
  \<comment> \<open>the row has its three probabilities\<close>
  "row_complete row =
     (case row of (h, d, a, _, _, _) \<Rightarrow> h \<noteq> None \<and> d \<noteq> None \<and> a \<noteq> None)"

definition spec_row_correct :: "backtest_row \<Rightarrow> bool" where
  \<comment> \<open>the argmax of the row's three probabilities is the bucket of its actual score\<close>
  "spec_row_correct row =
     (case row of
        (Some h, Some d, Some a, _, hsc, asc) \<Rightarrow> spec_bucket hsc asc = spec_argmax h d a
      | _ \<Rightarrow> False)"

definition spec_accuracy :: "backtest_row list \<Rightarrow> real" where
  \<comment> \<open>the fraction of rows whose argmax is the actual bucket\<close>
  "spec_accuracy rows = real (length (filter spec_row_correct rows)) / real (length rows)"

section \<open>Floating-point numbers of the examples\<close>

text \<open>
  The floating-point numbers that Python writes \<open>0.1\<close>, \<open>0.2\<close>, \<open>0.3\<close> and \<open>0.7\<close>
  (\<open>3 / 10\<close> evaluates to the third), as the fractions they are. The first, second and
  fourth sum to \<open>1 - 1 / 2 ^ 55\<close>, not to 1.
\<close>

definition float_0_1 :: real where
  "float_0_1 = 3602879701896397 / 36028797018963968"

definition float_0_2 :: real where
  "float_0_2 = 3602879701896397 / 18014398509481984"

definition float_0_3 :: real where
  "float_0_3 = 5404319552844595 / 18014398509481984"

definition float_0_7 :: real where
  "float_0_7 = 3152519739159347 / 4503599627370496"

text \<open>
  The eleven numbers of \<open>np.linspace(0, 1, 11)\<close>, the edges of the default ten bins. They
  are the floating-point products \<open>i * 0.1\<close>, written here as the fractions they are:
  0.0, 0.1, 0.2, 0.30000000000000004, 0.4, 0.5, 0.6000000000000001, 0.7000000000000001, 0.8,
  0.9, 1.0.
\<close>

definition np_linspace_0_1_11 :: "real list" where
  "np_linspace_0_1_11 =
     [0,
      3602879701896397 / 36028797018963968,
      3602879701896397 / 18014398509481984,
      1351079888211149 / 4503599627370496,
      3602879701896397 / 9007199254740992,
      1 / 2,
      1351079888211149 / 2251799813685248,
      6305039478318695 / 9007199254740992,
      3602879701896397 / 4503599627370496,
      8106479329266893 / 9007199254740992,
      1]"

section \<open>Backtesting: no qualifying rows\<close>

text \<open>
  C8. When the query of \<open>_backtest_single_model\<close> finds no qualifying row for the model in
  the window, the result is exactly accuracy 0.0, log_loss 0.0, brier_score 0.0 and count 0
  (with no \<open>model\<close> key); the same record is returned when the database cannot be read, so
  the function never fails.
\<close>

theorem backtest_no_rows_zero_metrics:
  "(backtest_query db model_type league_id start_date end_date = [] \<longrightarrow>
      backtest_single_model (Some db) league_id start_date end_date model_type =
        \<lparr> accuracy = 0.0, log_loss = 0.0, brier_score = 0.0, count = 0, model = None \<rparr>)
   \<and> backtest_single_model None league_id start_date end_date model_type =
        \<lparr> accuracy = 0.0, log_loss = 0.0, brier_score = 0.0, count = 0, model = None \<rparr>"
  by (simp add: backtest_single_model_def)

theorem backtest_no_rows_zero_metrics_witness:
  "backtest_query
      \<lparr> tbl_predictions = [\<lparr> p_match_id = 1, p_model_type = ''poisson'', p_home_probability = Some 0.5,
                         p_draw_probability = Some 0.3, p_away_probability = Some 0.2,
                         p_predicted_score = Some ''2-1'' \<rparr>],
        tbl_matches = [\<lparr> m_id = 1, m_league_id = 39, m_match_date = (5::nat),
                     m_home_score = None, m_away_score = Some 1 \<rparr>] \<rparr>
      ''poisson'' 39 0 10 = []
   \<and> backtest_single_model
      (Some \<lparr> tbl_predictions = [\<lparr> p_match_id = 1, p_model_type = ''poisson'', p_home_probability = Some 0.5,
                         p_draw_probability = Some 0.3, p_away_probability = Some 0.2,
                         p_predicted_score = Some ''2-1'' \<rparr>],
        tbl_matches = [\<lparr> m_id = 1, m_league_id = 39, m_match_date = (5::nat),
                     m_home_score = None, m_away_score = Some 1 \<rparr>] \<rparr>)
      39 0 10 ''poisson'' =
        \<lparr> accuracy = 0.0, log_loss = 0.0, brier_score = 0.0, count = 0, model = None \<rparr>"
  using backtest_no_rows_zero_metrics
    [of "\<lparr> tbl_predictions = [\<lparr> p_match_id = 1, p_model_type = ''poisson'', p_home_probability = Some 0.5,
                         p_draw_probability = Some 0.3, p_away_probability = Some 0.2,
                         p_predicted_score = Some ''2-1'' \<rparr>],
        tbl_matches = [\<lparr> m_id = 1, m_league_id = 39, m_match_date = (5::nat),
                     m_home_score = None, m_away_score = Some 1 \<rparr>] \<rparr>" "''poisson''" 39 0 10]
  by (simp add: backtest_query_def)

section \<open>Feature builder: defense strength\<close>

lemma build_features_lookup:
  assumes "build_features gts news hid aid hn an use_news = f" "f \<noteq> []"
  shows "dict_get f ''home_defense_strength'' 1.0 =
           (let g = (case gts hid of None \<Rightarrow> 1 | Some st \<Rightarrow> goals_against st)
            in if g > 0 then 1.0 - real_of_int g / 30.0 else 1.0)
    \<and> dict_get f ''away_defense_strength'' 1.0 =
           (let g = (case gts aid of None \<Rightarrow> 1 | Some st \<Rightarrow> goals_against st)
            in if g > 0 then 1.0 - real_of_int g / 30.0 else 1.0)
    \<and> dict_get f ''home_attack_strength'' 1.0 =
           (let g = (case gts hid of None \<Rightarrow> 0 | Some st \<Rightarrow> goals_for st)
            in if g > 0 then 1.0 + real_of_int g / 30.0 else 1.0)
    \<and> dict_get f ''away_attack_strength'' 1.0 =
           (let g = (case gts aid of None \<Rightarrow> 0 | Some st \<Rightarrow> goals_for st)
            in if g > 0 then 1.0 + real_of_int g / 30.0 else 1.0)"
proof -
  have "\<not> use_news \<or> (\<exists>x y. news hn = Some x \<and> news an = Some y)"
    using assms unfolding build_features_def Let_def by (auto split: option.splits)
  then consider (off) "\<not> use_news" | (on) x y where "use_news" "news hn = Some x" "news an = Some y"
    by blast
  then show ?thesis
  proof cases
    case off
    then show ?thesis
      unfolding assms(1) [symmetric] build_features_def dict_get_def Let_def by simp
  next
    case on
    then show ?thesis
      unfolding assms(1) [symmetric] build_features_def dict_get_def Let_def by simp
  qed
qed

lemma attack_strength_ge_1:
  "1 \<le> (let g = (case s of None \<Rightarrow> 0 | Some st \<Rightarrow> goals_for st)
         in if g > 0 then 1.0 + real_of_int g / 30.0 else (1.0::real))"
  by (simp add: Let_def)

lemma PoissonModel_fit_lambdas:
  "f \<noteq> [] \<Longrightarrow>
     home_lambda (PoissonModel_fit self hg ag f) =
       (if length hg > 0 then max (mean hg) 0.1 else 1.5) *
         (dict_get f ''home_attack_strength'' 1.0 * dict_get f ''away_defense_strength'' 1.0)
     \<and> away_lambda (PoissonModel_fit self hg ag f) =
       (if length ag > 0 then max (mean ag) 0.1 else 1.2) *
         (dict_get f ''away_attack_strength'' 1.0 * dict_get f ''home_defense_strength'' 1.0)"
  by (simp add: PoissonModel_fit_def Let_def)

lemma neg_product: "(b::real) > 0 \<Longrightarrow> a \<ge> 1 \<Longrightarrow> d < 0 \<Longrightarrow> b * (a * d) < 0"
  by (simp add: mult_pos_neg)

lemma defense_home:
  assumes f: "build_features gts news hid aid hn an use_news = f" "f \<noteq> []"
    and st: "gts hid = Some st" "goals_against st > 0"
  shows "dict_get f ''home_defense_strength'' 1.0 = 1.0 - real_of_int (goals_against st) / 30.0
    \<and> (goals_against st \<ge> 30 \<longrightarrow> dict_get f ''home_defense_strength'' 1.0 \<le> 0)
    \<and> away_lambda (PoissonModel_fit self hg ag f) =
         (if length ag > 0 then max (mean ag) 0.1 else 1.2) *
           (dict_get f ''away_attack_strength'' 1.0 * (1.0 - real_of_int (goals_against st) / 30.0))
    \<and> (goals_against st > 30 \<longrightarrow> away_lambda (PoissonModel_fit self hg ag f) < 0)"
proof -
  let ?d = "dict_get f ''home_defense_strength'' 1.0"
  let ?a = "dict_get f ''away_attack_strength'' 1.0"
  let ?b = "if length ag > 0 then max (mean ag) 0.1 else (1.2::real)"
  note lk = build_features_lookup [OF f]
  have d: "?d = 1 - real_of_int (goals_against st) / 30"
    using lk st by simp
  have a: "?a \<ge> 1"
    using lk attack_strength_ge_1 [of "gts aid"] by simp
  have b: "?b > 0"
    by (simp add: less_max_iff_disj)
  have fit: "away_lambda (PoissonModel_fit self hg ag f) = ?b * (?a * ?d)"
    using PoissonModel_fit_lambdas [OF f(2), of self hg ag] by simp
  have le: "goals_against st \<ge> 30 \<Longrightarrow> ?d \<le> 0"
    unfolding d by simp
  have lt: "goals_against st > 30 \<Longrightarrow> ?d < 0"
    unfolding d by simp
  have neg: "goals_against st > 30 \<Longrightarrow> away_lambda (PoissonModel_fit self hg ag f) < 0"
    unfolding fit by (rule neg_product [OF b a lt])
  have c1: "?d = 1.0 - real_of_int (goals_against st) / 30.0"
    unfolding d by simp
  have c3: "away_lambda (PoissonModel_fit self hg ag f) =
      ?b * (?a * (1.0 - real_of_int (goals_against st) / 30.0))"
    unfolding fit c1 ..
  show ?thesis
    by (intro conjI impI c1 le c3 neg)
qed

lemma defense_away:
  assumes f: "build_features gts news hid aid hn an use_news = f" "f \<noteq> []"
    and st: "gts aid = Some st" "goals_against st > 0"
  shows "dict_get f ''away_defense_strength'' 1.0 = 1.0 - real_of_int (goals_against st) / 30.0
    \<and> (goals_against st \<ge> 30 \<longrightarrow> dict_get f ''away_defense_strength'' 1.0 \<le> 0)
    \<and> home_lambda (PoissonModel_fit self hg ag f) =
         (if length hg > 0 then max (mean hg) 0.1 else 1.5) *
           (dict_get f ''home_attack_strength'' 1.0 * (1.0 - real_of_int (goals_against st) / 30.0))
    \<and> (goals_against st > 30 \<longrightarrow> home_lambda (PoissonModel_fit self hg ag f) < 0)"
proof -
  let ?d = "dict_get f ''away_defense_strength'' 1.0"
  let ?a = "dict_get f ''home_attack_strength'' 1.0"
  let ?b = "if length hg > 0 then max (mean hg) 0.1 else (1.5::real)"
  note lk = build_features_lookup [OF f]
  have d: "?d = 1 - real_of_int (goals_against st) / 30"
    using lk st by simp
  have a: "?a \<ge> 1"
    using lk attack_strength_ge_1 [of "gts hid"] by simp
  have b: "?b > 0"
    by (simp add: less_max_iff_disj)
  have fit: "home_lambda (PoissonModel_fit self hg ag f) = ?b * (?a * ?d)"
    using PoissonModel_fit_lambdas [OF f(2), of self hg ag] by simp
  have le: "goals_against st \<ge> 30 \<Longrightarrow> ?d \<le> 0"
    unfolding d by simp
  have lt: "goals_against st > 30 \<Longrightarrow> ?d < 0"
    unfolding d by simp
  have neg: "goals_against st > 30 \<Longrightarrow> home_lambda (PoissonModel_fit self hg ag f) < 0"
    unfolding fit by (rule neg_product [OF b a lt])
  have c1: "?d = 1.0 - real_of_int (goals_against st) / 30.0"
    unfolding d by simp
  have c3: "home_lambda (PoissonModel_fit self hg ag f) =
      ?b * (?a * (1.0 - real_of_int (goals_against st) / 30.0))"
    unfolding fit c1 ..
  show ?thesis
    by (intro conjI impI c1 le c3 neg)
qed

text \<open>
  C10. For a team-stats record with \<open>goals_against > 0\<close> the builder's defense strength is
  \<open>1.0 - goals_against / 30.0\<close>, for the home and for the away team alike. There is no
  positive floor: with 30 or more goals conceded the factor is zero or negative. The
  fitted Poisson rate of the opposing side is its base rate times its attack strength
  times this factor, so with more than 30 goals conceded the fitted rate is negative.
  The builder's result \<open>f\<close> is taken where it did not fail (\<open>f \<noteq> []\<close>).
\<close>

theorem defense_strength_not_floored:
  assumes "build_features gts news hid aid hn an use_news = f" "f \<noteq> []"
  shows "(\<forall>st. gts hid = Some st \<and> goals_against st > 0 \<longrightarrow>
            dict_get f ''home_defense_strength'' 1.0 = 1.0 - real_of_int (goals_against st) / 30.0
          \<and> (goals_against st \<ge> 30 \<longrightarrow> dict_get f ''home_defense_strength'' 1.0 \<le> 0)
          \<and> away_lambda (PoissonModel_fit self hg ag f) =
               (if length ag > 0 then max (mean ag) 0.1 else 1.2) *
                 (dict_get f ''away_attack_strength'' 1.0
                    * (1.0 - real_of_int (goals_against st) / 30.0))
          \<and> (goals_against st > 30 \<longrightarrow> away_lambda (PoissonModel_fit self hg ag f) < 0))
    \<and> (\<forall>st. gts aid = Some st \<and> goals_against st > 0 \<longrightarrow>
            dict_get f ''away_defense_strength'' 1.0 = 1.0 - real_of_int (goals_against st) / 30.0
          \<and> (goals_against st \<ge> 30 \<longrightarrow> dict_get f ''away_defense_strength'' 1.0 \<le> 0)
          \<and> home_lambda (PoissonModel_fit self hg ag f) =
               (if length hg > 0 then max (mean hg) 0.1 else 1.5) *
                 (dict_get f ''home_attack_strength'' 1.0
                    * (1.0 - real_of_int (goals_against st) / 30.0))
          \<and> (goals_against st > 30 \<longrightarrow> home_lambda (PoissonModel_fit self hg ag f) < 0))"
  using defense_home [OF assms] defense_away [OF assms] by blast

theorem defense_strength_not_floored_witness:
  "dict_get (build_features
       (\<lambda>i. if i = 1 then Some \<lparr> goals_for = 20, goals_against = 45, form_rating = 0.4 \<rparr>
            else Some \<lparr> goals_for = 10, goals_against = 60, form_rating = 0.3 \<rparr>)
       (\<lambda>n. None) 1 2 ''A'' ''B'' False) ''home_defense_strength'' 1.0 = - 1 / 2
   \<and> dict_get (build_features
       (\<lambda>i. if i = 1 then Some \<lparr> goals_for = 20, goals_against = 45, form_rating = 0.4 \<rparr>
            else Some \<lparr> goals_for = 10, goals_against = 60, form_rating = 0.3 \<rparr>)
       (\<lambda>n. None) 1 2 ''A'' ''B'' False) ''away_defense_strength'' 1.0 = - 1
   \<and> away_lambda (PoissonModel_fit PoissonModel_init [1, 2] [0, 3]
        (build_features
          (\<lambda>i. if i = 1 then Some \<lparr> goals_for = 20, goals_against = 45, form_rating = 0.4 \<rparr>
               else Some \<lparr> goals_for = 10, goals_against = 60, form_rating = 0.3 \<rparr>)
          (\<lambda>n. None) 1 2 ''A'' ''B'' False)) < 0
   \<and> home_lambda (PoissonModel_fit PoissonModel_init [1, 2] [0, 3]
        (build_features
          (\<lambda>i. if i = 1 then Some \<lparr> goals_for = 20, goals_against = 45, form_rating = 0.4 \<rparr>
               else Some \<lparr> goals_for = 10, goals_against = 60, form_rating = 0.3 \<rparr>)
          (\<lambda>n. None) 1 2 ''A'' ''B'' False)) < 0"
proof -
  let ?hst = "\<lparr> goals_for = 20, goals_against = 45, form_rating = 0.4 \<rparr>"
  let ?ast = "\<lparr> goals_for = 10, goals_against = 60, form_rating = 0.3 \<rparr>"
  let ?gts = "\<lambda>i::int. if i = 1 then Some ?hst else Some ?ast"
  let ?f = "build_features ?gts (\<lambda>n. None) 1 2 ''A'' ''B'' False"
  have f: "?f \<noteq> []" by (simp add: build_features_def Let_def)
  have h: "?gts 1 = Some ?hst \<and> goals_against ?hst > 0" by simp
  have a: "?gts 2 = Some ?ast \<and> goals_against ?ast > 0" by simp
  note T = defense_strength_not_floored [OF refl f, of PoissonModel_init "[1, 2]" "[0, 3]"]
  have "dict_get ?f ''home_defense_strength'' 1.0 = 1.0 - real_of_int (goals_against ?hst) / 30.0
          \<and> (goals_against ?hst > 30 \<longrightarrow>
                away_lambda (PoissonModel_fit PoissonModel_init [1, 2] [0, 3] ?f) < 0)"
    using T h by blast
  moreover
  have "dict_get ?f ''away_defense_strength'' 1.0 = 1.0 - real_of_int (goals_against ?ast) / 30.0
          \<and> (goals_against ?ast > 30 \<longrightarrow>
                home_lambda (PoissonModel_fit PoissonModel_init [1, 2] [0, 3] ?f) < 0)"
    using T a by blast
  ultimately show ?thesis by simp
qed

section \<open>Negative-binomial fit: the dispersion parameter\<close>




section \<open>Hawkes model: zero base intensities\<close>

lemma simulate_run_zero:
  "simulate_run self 0 ml (Fin 0) 0 [] rs = Some ([], if 0 < ml then stl rs else rs)"
  by (subst simulate_run.simps) (simp add: advance_def)

lemma simulate_runs_zero:
  "\<exists>rs'. simulate_runs self 0 ml n counts rs = Some (counts @ replicate n 0, rs')"
proof (induction n arbitrary: counts rs)
  case 0
  then show ?case by simp
next
  case (Suc n)
  obtain rs1 where r: "simulate_run self 0 ml (Fin 0) 0 [] rs = Some ([], rs1)"
    using simulate_run_zero by blast
  from Suc [of "counts @ [0]" rs1] obtain rs' where
    "simulate_runs self 0 ml n (counts @ [0]) rs1 = Some ((counts @ [0]) @ replicate n 0, rs')"
    by blast
  then show ?case using r by (simp add: replicate_app_Cons_same)
qed

lemma simulate_runs_length:
  "simulate_runs self b ml n counts rs = Some (cs, rs') \<Longrightarrow> length cs = length counts + n"
  by (induction n arbitrary: counts rs) (auto split: option.splits)

text \<open>
  C5. With both base intensities 0 every simulated run ends at its first step, the total
  intensity is 0, and predict returns (for every feature map, match length and random
  source) home 0.45, away 0.45 and the residual draw 0.10; the three sum to 1, so the
  renormalization leaves them as they are.
\<close>

theorem hawkes_zero_intensity_fallback:
  assumes "lambda0_home self = 0" "lambda0_away self = 0"
  shows "\<exists>r rs'. HawkesModel_predict self features match_length rs = Some (r, rs')
     \<and> home_probability r = Some 0.45 \<and> draw_probability r = Some 0.10
     \<and> away_probability r = Some 0.45"
proof -
  obtain rs1 where h: "HawkesModel_simulate_goals self 0 match_length 100 rs = Some (replicate 100 0, rs1)"
    using simulate_runs_zero [of self match_length 100 "[]" rs]
    unfolding HawkesModel_simulate_goals_def by auto
  obtain rs2 where a: "HawkesModel_simulate_goals self 0 match_length 100 rs1 = Some (replicate 100 0, rs2)"
    using simulate_runs_zero [of self match_length 100 "[]" rs1]
    unfolding HawkesModel_simulate_goals_def by auto
  show ?thesis
    unfolding HawkesModel_predict_def assms using h a by (simp add: Let_def)
qed


theorem hawkes_zero_intensity_fallback_witness:
  "map_option (\<lambda>(r, _). (home_probability r, draw_probability r, away_probability r))
     (HawkesModel_predict (HawkesModel_init\<lparr> lambda0_home := 0, lambda0_away := 0 \<rparr>) [] 90
        (sconst (1 / 2)))
   = Some (Some 0.45, Some 0.10, Some 0.45)"
proof -
  let ?m = "HawkesModel_init\<lparr> lambda0_home := 0, lambda0_away := 0 \<rparr>"
  have "lambda0_home ?m = 0" "lambda0_away ?m = 0" by simp_all
  from hawkes_zero_intensity_fallback [OF this, of "[]" 90 "sconst (1 / 2)"]
  obtain r rs' where "HawkesModel_predict ?m [] 90 (sconst (1 / 2)) = Some (r, rs')"
    "home_probability r = Some 0.45" "draw_probability r = Some 0.10"
    "away_probability r = Some 0.45"
    by blast
  then show ?thesis by simp
qed

section \<open>Form model: the away probability\<close>

text \<open>
  C3. The home probability is the home side's win emission times one minus the away side's
  loss emission, as claimed. The away probability is not the mirror image: the code takes
  the away side's \<^emph>\<open>loss\<close> emission (column 2) times one minus the home side's \<^emph>\<open>win\<close>
  emission (column 0). For a home side in good form (0.7) and an away side in poor form
  (0.2) it returns 0.6 * (1 - 0.8) = 0.12, where the claimed formula gives
  0.1 * (1 - 0.05) = 0.095.
\<close>

theorem hmm_away_uses_loss_emission:
  "away_probability (HMMFormModel_predict HMMFormModel_init [(''home_form'', 0.7), (''away_form'', 0.2)])
     = Some (emission_probs HMMFormModel_init ! 2 ! 2 * (1 - emission_probs HMMFormModel_init ! 0 ! 0))
   \<and> away_probability (HMMFormModel_predict HMMFormModel_init [(''home_form'', 0.7), (''away_form'', 0.2)])
     = Some 0.12
   \<and> emission_probs HMMFormModel_init ! 2 ! 0 * (1 - emission_probs HMMFormModel_init ! 0 ! 2) = 0.095"
  by (simp add: HMMFormModel_predict_def HMMFormModel_init_def dict_get_def
        HMMFormModel_get_state_from_form_def HMMFormModel_predict_score_def Let_def)

section \<open>Hawkes model: the predicted scoreline\<close>

lemma simulate_run_quiet:
  assumes "0 < b" "b \<le> 1 / 18"
  shows "simulate_run self b 90 (Fin 0) b [] (sconst (exp (- 5))) = Some ([], sconst (exp (- 5)))"
proof -
  have "90 * b \<le> 5" using assms by simp
  then have late: "\<not> 5 / b < 90"
    using assms(1) by (simp add: pos_divide_less_eq)
  have adv: "advance (Fin 0) (exp (- 5)) b = Some (Fin (5 / b))"
    using assms(1) by (simp add: advance_def)
  have stop: "simulate_run self b 90 (Fin (5 / b)) b [] (sconst (exp (- 5))) = Some ([], sconst (exp (- 5)))"
    using late by (subst simulate_run.simps) simp
  show ?thesis
    using late adv stop by (subst simulate_run.simps) simp
qed

lemma simulate_runs_quiet:
  assumes "0 < b" "b \<le> 1 / 18"
  shows "simulate_runs self b 90 n counts (sconst (exp (- 5)))
           = Some (counts @ replicate n 0, sconst (exp (- 5)))"
  by (induction n arbitrary: counts)
     (simp_all add: simulate_run_quiet [OF assms] replicate_app_Cons_same)

lemma hawkes_quiet_simulations:
  "HawkesModel_simulate_goals HawkesModel_init (lambda0_home HawkesModel_init) 90 100 (sconst (exp (- 5)))
     = Some (replicate 100 0, sconst (exp (- 5)))
   \<and> HawkesModel_simulate_goals HawkesModel_init (lambda0_away HawkesModel_init) 90 100 (sconst (exp (- 5)))
     = Some (replicate 100 0, sconst (exp (- 5)))"
  unfolding HawkesModel_simulate_goals_def
  using simulate_runs_quiet [of "0.05" HawkesModel_init 100 "[]"]
    simulate_runs_quiet [of "0.04" HawkesModel_init 100 "[]"]
  by (simp add: HawkesModel_init_def)

text \<open>
  C2. \<open>_simulate_goals\<close> returns one goal count per simulation, and predict takes the
  \<^emph>\<open>length\<close> of that array as the side's number of goals. With the initial parameters, a
  90-minute match and a random source that always draws \<open>exp(-5)\<close>, every one of the 100
  runs of either side ends without a goal, and the predicted scoreline is ``100-100'': the
  number of simulations, not the goals of a run.
\<close>

theorem hawkes_scoreline_counts_simulations:
  "HawkesModel_simulate_goals HawkesModel_init (lambda0_home HawkesModel_init) 90 100 (sconst (exp (- 5)))
     = Some (replicate 100 0, sconst (exp (- 5)))
   \<and> HawkesModel_simulate_goals HawkesModel_init (lambda0_away HawkesModel_init) 90 100 (sconst (exp (- 5)))
     = Some (replicate 100 0, sconst (exp (- 5)))
   \<and> map_option (\<lambda>(r, _). predicted_score r) (HawkesModel_predict HawkesModel_init [] 90 (sconst (exp (- 5))))
     = Some (Some ''100-100'')"
proof -
  note q = hawkes_quiet_simulations
  have s: "str_nat 100 = ''100''"
    by (simp add: str_nat.simps digit_char_def)
  have "map_option (\<lambda>(r, _). predicted_score r) (HawkesModel_predict HawkesModel_init [] 90 (sconst (exp (- 5))))
     = Some (Some ''100-100'')"
    by (simp add: HawkesModel_predict_def q Let_def s)
  with q show ?thesis by blast
qed

section \<open>Calibration bins\<close>

lemma present_rows_all:
  "\<forall>row \<in> set rows. fst row \<noteq> None \<Longrightarrow>
     present_rows rows = Some (map (\<lambda>(p, hsc, asc). (the p, hsc, asc)) rows)"
  unfolding present_rows_def
  by (induction rows) (auto split: option.splits)

lemma bin_rows_present:
  assumes "\<forall>row \<in> set rows. fst row \<noteq> None"
  shows "bin_rows edges rows i =
     Some (filter (\<lambda>(x, _, _). edges ! i \<le> x \<and> x \<le> edges ! (i + 1))
             (map (\<lambda>(p, hsc, asc). (the p, hsc, asc)) rows))"
  by (simp add: bin_rows_def present_rows_all [OF assms])

lemma edge_row_in_bin:
  assumes "\<forall>row \<in> set rows. fst row \<noteq> None" "(Some x, hsc, asc) \<in> set rows"
    and "edges ! i \<le> x" "x \<le> edges ! (i + 1)"
  shows "\<exists>brs. bin_rows edges rows i = Some brs \<and> (x, hsc, asc) \<in> set brs"
proof -
  have "(x, hsc, asc) \<in> set (map (\<lambda>(p, hsc, asc). (the p, hsc, asc)) rows)"
    using assms(2) by force
  then show ?thesis
    unfolding bin_rows_present [OF assms(1)] using assms(3,4) by simp
qed

lemma calibration_fold:
  assumes "\<forall>i \<in> set is. \<exists>brs. bin_rows edges rows i = Some brs"
  shows "\<exists>al cl. fold (calibration_step edges rows) is (Some (al0, cl0)) = Some (al, cl)
     \<and> length al = length al0 + length (filter (\<lambda>i. bin_rows edges rows i \<noteq> Some []) is)
     \<and> length cl = length cl0 + length (filter (\<lambda>i. bin_rows edges rows i \<noteq> Some []) is)"
  using assms
proof (induction "is" arbitrary: al0 cl0)
  case Nil
  then show ?case by simp
next
  case (Cons i "is")
  obtain brs where b: "bin_rows edges rows i = Some brs" using Cons.prems by auto
  have r: "\<forall>i \<in> set is. \<exists>brs. bin_rows edges rows i = Some brs" using Cons.prems by simp
  show ?case
  proof (cases "brs = []")
    case True
    then have "calibration_step edges rows i (Some (al0, cl0)) = Some (al0, cl0)"
      by (simp add: calibration_step_def b)
    then show ?thesis using Cons.IH [OF r, of al0 cl0] b True by simp
  next
    case False
    then obtain x y where s: "calibration_step edges rows i (Some (al0, cl0)) = Some (al0 @ [x], cl0 @ [y])"
      by (simp add: calibration_step_def b)
    show ?thesis using Cons.IH [OF r, of "al0 @ [x]" "cl0 @ [y]"] b False s by simp
  qed
qed

lemma two_in_filter:
  assumes "i \<in> set xs" "j \<in> set xs" "i \<noteq> j" "P i" "P j"
  shows "2 \<le> length (filter P xs)"
proof -
  have "{i, j} \<subseteq> set (filter P xs)" using assms by simp
  then have "card {i, j} \<le> card (set (filter P xs))"
    by (intro card_mono) simp_all
  also have "\<dots> \<le> length (filter P xs)" by (rule card_length)
  finally show ?thesis using assms(3) by simp
qed

text \<open>
  C9 as stated fails. The edges of the bins are the numbers that \<open>np.linspace\<close> computes,
  and they are not always the numbers \<open>k / N\<close>: with the default ten bins the edge of index 3
  is 0.30000000000000004, above the floating-point number \<open>3 / 10 = 0.3\<close>. A record whose
  home-win probability is \<open>0.3\<close> is counted in bin 2 (from 0.2 to 0.30000000000000004) and
  not in bin 3: the result has one entry.
\<close>

theorem calibration_edge_row_in_one_bin:
  "bin_rows np_linspace_0_1_11 [(Some float_0_3, 2, 1)] 2 = Some [(float_0_3, 2, 1)]
   \<and> bin_rows np_linspace_0_1_11 [(Some float_0_3, 2, 1)] 3 = Some []
   \<and> bin_confidence (calibration_of_rows np_linspace_0_1_11 10 [(Some float_0_3, 2, 1)])
       = [float_0_3]
   \<and> bin_accuracy (calibration_of_rows np_linspace_0_1_11 10 [(Some float_0_3, 2, 1)]) = [1]"
  by (simp add: calibration_of_rows_def calibration_step_def bin_rows_def present_rows_def
        np_linspace_0_1_11_def float_0_3_def upt_rec mean_def)

text \<open>
  C9, amended. The membership test of bin \<open>i\<close> is the inclusive range
  \<open>bin_edges[i] \<le> home_probability \<le> bin_edges[i + 1]\<close> over the edges computed by
  \<open>np.linspace\<close> (\<open>bins + 1\<close> non-decreasing numbers). So, when every row has a home
  probability, a row whose home-win probability equals the computed interior edge
  \<open>bin_edges[k]\<close> (\<open>0 < k < bins\<close>) is a row of bin \<open>k - 1\<close> and of bin \<open>k\<close>, and each of the two
  bins has an entry in the accuracy and confidence lists returned: the bins overlap at
  their computed edges.
\<close>

theorem calibration_bins_overlap:
  assumes "length edges = bins + 1" "sorted edges" "0 < k" "k < bins"
    and "\<forall>row \<in> set rows. fst row \<noteq> None"
    and "(Some (edges ! k), hsc, asc) \<in> set rows"
  shows "(\<exists>brs. bin_rows edges rows (k - 1) = Some brs \<and> (edges ! k, hsc, asc) \<in> set brs)
    \<and> (\<exists>brs. bin_rows edges rows k = Some brs \<and> (edges ! k, hsc, asc) \<in> set brs)
    \<and> 2 \<le> length (bin_confidence (calibration_of_rows edges bins rows))
    \<and> 2 \<le> length (bin_accuracy (calibration_of_rows edges bins rows))
    \<and> bin_edges (calibration_of_rows edges bins rows) = edges"
proof -
  have lo: "edges ! (k - 1) \<le> edges ! k"
    using assms(1-4) by (intro sorted_nth_mono) simp_all
  have hi: "edges ! k \<le> edges ! (k + 1)"
    using assms(1-4) by (intro sorted_nth_mono) simp_all
  have b1: "\<exists>brs. bin_rows edges rows (k - 1) = Some brs \<and> (edges ! k, hsc, asc) \<in> set brs"
    using edge_row_in_bin [OF assms(5,6), of edges "k - 1"] lo assms(3) by simp
  have b2: "\<exists>brs. bin_rows edges rows k = Some brs \<and> (edges ! k, hsc, asc) \<in> set brs"
    using edge_row_in_bin [OF assms(5,6), of edges k] hi by simp
  have ne: "bin_rows edges rows (k - 1) \<noteq> Some []" "bin_rows edges rows k \<noteq> Some []"
    using b1 b2 by auto
  have n: "2 \<le> length (filter (\<lambda>i. bin_rows edges rows i \<noteq> Some []) [0..<bins])"
    using assms(3,4) ne by (intro two_in_filter [of "k - 1" _ k]) simp_all
  have "\<forall>i \<in> set [0..<bins]. \<exists>brs. bin_rows edges rows i = Some brs"
    by (simp add: bin_rows_present [OF assms(5)])
  from calibration_fold [OF this, of "[]" "[]"] obtain al cl where
    f: "fold (calibration_step edges rows) [0..<bins] (Some ([], [])) = Some (al, cl)"
    and l: "length al = length (filter (\<lambda>i. bin_rows edges rows i \<noteq> Some []) [0..<bins])"
      "length cl = length (filter (\<lambda>i. bin_rows edges rows i \<noteq> Some []) [0..<bins])"
    by auto
  have "2 \<le> length (bin_confidence (calibration_of_rows edges bins rows))
    \<and> 2 \<le> length (bin_accuracy (calibration_of_rows edges bins rows))
    \<and> bin_edges (calibration_of_rows edges bins rows) = edges"
    unfolding calibration_of_rows_def f using n l by simp
  then show ?thesis using b1 b2 by simp
qed

theorem calibration_bins_overlap_witness:
  "bin_rows np_linspace_0_1_11 [(Some (1 / 2), 2, 1)] 4 = Some [(1 / 2, 2, 1)]
   \<and> bin_rows np_linspace_0_1_11 [(Some (1 / 2), 2, 1)] 5 = Some [(1 / 2, 2, 1)]
   \<and> bin_confidence (calibration_of_rows np_linspace_0_1_11 10 [(Some (1 / 2), 2, 1)]) = [1 / 2, 1 / 2]
   \<and> bin_accuracy (calibration_of_rows np_linspace_0_1_11 10 [(Some (1 / 2), 2, 1)]) = [1, 1]
   \<and> 2 \<le> length (bin_confidence (calibration_of_rows np_linspace_0_1_11 10 [(Some (1 / 2), 2, 1)]))"
proof -
  have e: "length np_linspace_0_1_11 = 10 + 1" "sorted np_linspace_0_1_11"
      "np_linspace_0_1_11 ! 5 = 1 / 2"
    by (simp_all add: np_linspace_0_1_11_def)
  have r: "\<forall>row \<in> set [(Some (1 / 2 :: real), 2 :: int, 1 :: int)]. fst row \<noteq> None"
      "(Some (np_linspace_0_1_11 ! 5), 2, 1) \<in> set [(Some (1 / 2 :: real), 2 :: int, 1 :: int)]"
    by (simp_all add: e(3))
  have k: "(0::nat) < 5" "(5::nat) < 10" by simp_all
  have c: "bin_rows np_linspace_0_1_11 [(Some (1 / 2), 2, 1)] 4 = Some [(1 / 2, 2, 1)]
   \<and> bin_rows np_linspace_0_1_11 [(Some (1 / 2), 2, 1)] 5 = Some [(1 / 2, 2, 1)]
   \<and> bin_confidence (calibration_of_rows np_linspace_0_1_11 10 [(Some (1 / 2), 2, 1)]) = [1 / 2, 1 / 2]
   \<and> bin_accuracy (calibration_of_rows np_linspace_0_1_11 10 [(Some (1 / 2), 2, 1)]) = [1, 1]"
    by (simp add: calibration_of_rows_def calibration_step_def bin_rows_def present_rows_def
        np_linspace_0_1_11_def upt_rec mean_def)
  from calibration_bins_overlap [OF e(1,2) k r] c show ?thesis by simp
qed

section \<open>Backtesting: accuracy\<close>

lemma max_key_three:
  "max_key [(''home'', Some h), (''draw'', Some d), (''away'', Some a)] = Some (spec_argmax h d a)"
  by (auto simp add: max_key_def spec_argmax_def max_def)

lemma max_key_missing:
  "h = None \<or> d = None \<or> a = None \<Longrightarrow> max_key [(''home'', h), (''draw'', d), (''away'', a)] = None"
  by (auto simp add: max_key_def split: option.splits)

lemma accuracy_step_complete:
  "row_complete row \<Longrightarrow>
     accuracy_step row (Some c) = Some (if spec_row_correct row then c + 1 else c)"
proof -
  assume "row_complete row"
  then obtain h d a s hsc asc where row: "row = (Some h, Some d, Some a, s, hsc, asc)"
    by (cases row) (auto simp add: row_complete_def)
  show ?thesis
    unfolding row
    by (simp add: accuracy_step_def spec_row_correct_def max_key_three spec_bucket_def Let_def)
qed

lemma accuracy_step_incomplete: "\<not> row_complete row \<Longrightarrow> accuracy_step row acc = None"
  by (cases row; cases acc)
    (auto simp add: row_complete_def accuracy_step_def max_key_missing Let_def)

lemma accuracy_fold_None: "fold accuracy_step rows None = None"
  by (induction rows) (simp_all add: accuracy_step_def split: prod.splits)

lemma accuracy_fold_complete:
  "\<forall>row \<in> set rows. row_complete row \<Longrightarrow>
     fold accuracy_step rows (Some c) = Some (c + length (filter spec_row_correct rows))"
  by (induction rows arbitrary: c) (simp_all add: accuracy_step_complete)

lemma accuracy_fold_incomplete:
  "\<exists>row \<in> set rows. \<not> row_complete row \<Longrightarrow> fold accuracy_step rows acc = None"
proof (induction rows arbitrary: acc)
  case Nil
  then show ?case by simp
next
  case (Cons row rows)
  show ?case
  proof (cases "row_complete row")
    case True
    then have "\<exists>row \<in> set rows. \<not> row_complete row" using Cons.prems by auto
    then show ?thesis using Cons.IH by simp
  next
    case False
    then show ?thesis by (simp add: accuracy_step_incomplete accuracy_fold_None)
  qed
qed

text \<open>
  C7 as stated fails. The probability columns of a stored prediction may be NULL, and the
  query filters only on the scores. On a row with a missing probability the argmax raises
  TypeError, the \<open>except\<close> branch of \<open>_calculate_accuracy\<close> returns 0.0 for the whole list,
  and the rows that were predicted correctly are lost: of the two rows below the first is
  predicted correctly, so the fraction is 1/2, and the accuracy returned is 0.
\<close>

theorem accuracy_missing_probability_counterexample:
  "calculate_accuracy [(Some 0.6, Some 0.3, Some 0.1, Some ''2-1'', 2, 1),
                       (None, Some 0.5, Some 0.5, None, 1, 1)] = 0
   \<and> spec_accuracy [(Some 0.6, Some 0.3, Some 0.1, Some ''2-1'', 2, 1),
                     (None, Some 0.5, Some 0.5, None, 1, 1)] = 1 / 2"
  by (simp add: calculate_accuracy_def accuracy_step_def max_key_def spec_accuracy_def
        spec_row_correct_def spec_bucket_def spec_argmax_def)

text \<open>
  C7, amended. For a non-empty list of rows that all have their three probabilities,
  \<open>_calculate_accuracy\<close> is the fraction of rows whose argmax over (home, draw, away), a tie
  going to the first of the three in that order, is the bucket of the actual final score.
  For a list with a row that lacks one of its three probabilities it is 0.0.
\<close>

theorem accuracy_is_argmax_fraction:
  "(rows \<noteq> [] \<and> (\<forall>row \<in> set rows. row_complete row)
      \<longrightarrow> calculate_accuracy rows = spec_accuracy rows)
   \<and> ((\<exists>row \<in> set rows. \<not> row_complete row) \<longrightarrow> calculate_accuracy rows = 0)"
  by (simp add: calculate_accuracy_def spec_accuracy_def accuracy_fold_complete
        accuracy_fold_incomplete)

theorem accuracy_is_argmax_fraction_witness:
  "calculate_accuracy [(Some 0.4, Some 0.4, Some 0.2, Some ''1-1'', 2, 1),
                       (Some 0.3, Some 0.3, Some 0.4, Some ''0-1'', 1, 1),
                       (Some 0.2, Some 0.4, Some 0.4, Some ''1-1'', 0, 0)] = 2 / 3
   \<and> spec_accuracy [(Some 0.4, Some 0.4, Some 0.2, Some ''1-1'', 2, 1),
                     (Some 0.3, Some 0.3, Some 0.4, Some ''0-1'', 1, 1),
                     (Some 0.2, Some 0.4, Some 0.4, Some ''1-1'', 0, 0)] = 2 / 3
   \<and> calculate_accuracy [(Some 0.4, Some 0.4, Some 0.2, Some ''1-1'', 2, 1),
                          (Some 0.3, None, Some 0.4, Some ''0-1'', 1, 1)] = 0"
proof -
  let ?rows = "[(Some 0.4, Some 0.4, Some 0.2, Some ''1-1'', 2, 1),
                (Some 0.3, Some 0.3, Some 0.4, Some ''0-1'', 1, 1),
                (Some 0.2, Some 0.4, Some 0.4, Some ''1-1'', 0, 0)] :: backtest_row list"
  let ?bad = "[(Some 0.4, Some 0.4, Some 0.2, Some ''1-1'', 2, 1),
               (Some 0.3, None, Some 0.4, Some ''0-1'', 1, 1)] :: backtest_row list"
  have ne: "?rows \<noteq> [] \<and> (\<forall>row \<in> set ?rows. row_complete row)"
    by (simp add: row_complete_def del: not_None_eq)
  have s: "spec_accuracy ?rows = 2 / 3"
    by (simp add: spec_accuracy_def spec_row_correct_def spec_argmax_def spec_bucket_def)
  have b: "\<exists>row \<in> set ?bad. \<not> row_complete row"
    by (simp add: row_complete_def)
  show ?thesis
    using accuracy_is_argmax_fraction [of ?rows] accuracy_is_argmax_fraction [of ?bad] ne s b
    by simp
qed

section \<open>Combiner: four identical predictions\<close>

lemma digit_roundtrip:
  assumes "d < 10"
  shows "is_digit (digit_char d) \<and> digit_val (digit_char d) = d \<and> digit_char d \<noteq> CHR ''-''
         \<and> digit_char d \<noteq> CHR ''+'' \<and> \<not> is_space (digit_char d)"
proof -
  have "d = 0 \<or> d = 1 \<or> d = 2 \<or> d = 3 \<or> d = 4 \<or> d = 5 \<or> d = 6 \<or> d = 7 \<or> d = 8 \<or> d = 9"
    using assms by arith
  then show ?thesis
    by (elim disjE) (simp_all add: digit_char_def is_digit_def digit_val_def is_space_def)
qed

lemma str_nat_chars:
  "c \<in> set (str_nat n) \<Longrightarrow> is_digit c \<and> c \<noteq> CHR ''-'' \<and> c \<noteq> CHR ''+'' \<and> \<not> is_space c"
proof (induction n arbitrary: c rule: str_nat.induct)
  case (1 n)
  show ?case
  proof (cases "n < 10")
    case True
    then show ?thesis
      using "1.prems" digit_roundtrip [of n] by (subst (asm) str_nat.simps) simp
  next
    case False
    then have "c \<in> set (str_nat (n div 10)) \<or> c = digit_char (n mod 10)"
      using "1.prems" by (subst (asm) str_nat.simps) auto
    then show ?thesis
      using "1.IH" [OF False] digit_roundtrip [of "n mod 10"] by auto
  qed
qed

lemma str_nat_nonempty: "str_nat n \<noteq> []"
  by (subst str_nat.simps) simp

lemma parse_digits_all:
  "\<forall>x \<in> set ds. is_digit x \<Longrightarrow>
     parse_digits acc ds = Some (foldl (\<lambda>a c. 10 * a + digit_val c) acc ds)"
  by (induction acc ds rule: parse_digits.induct) simp_all

lemma foldl_str_nat: "foldl (\<lambda>a c. 10 * a + digit_val c) 0 (str_nat n) = n"
proof (induction n rule: str_nat.induct)
  case (1 n)
  show ?case
  proof (cases "n < 10")
    case True
    then show ?thesis
      using digit_roundtrip [of n] by (subst str_nat.simps) simp
  next
    case False
    then show ?thesis
      using "1.IH" [OF False] digit_roundtrip [of "n mod 10"] by (subst str_nat.simps) simp
  qed
qed

lemma strip_no_space: "\<forall>c \<in> set s. \<not> is_space c \<Longrightarrow> strip s = s"
proof -
  assume a: "\<forall>c \<in> set s. \<not> is_space c"
  have d: "\<And>xs. \<forall>c \<in> set xs. \<not> is_space c \<Longrightarrow> dropWhile is_space xs = xs"
    by (case_tac xs) simp_all
  show ?thesis
    unfolding strip_def using a by (simp add: d)
qed

lemma py_int_str_nat: "py_int (str_nat n) = Some (int n)"
proof -
  obtain c cs where s: "str_nat n = c # cs"
    using str_nat_nonempty [of n] by (cases "str_nat n") auto
  have ch: "\<forall>x \<in> set (c # cs). is_digit x \<and> x \<noteq> CHR ''-'' \<and> x \<noteq> CHR ''+'' \<and> \<not> is_space x"
    using str_nat_chars [of _ n] unfolding s by blast
  have st: "strip (c # cs) = c # cs"
    using ch by (intro strip_no_space) blast
  have pd: "parse_digits (digit_val c) cs = Some (foldl (\<lambda>a c. 10 * a + digit_val c) 0 (c # cs))"
    using ch by (subst parse_digits_all) simp_all
  show ?thesis
    unfolding py_int_def s st using ch pd foldl_str_nat [of n]
    by (simp add: s Let_def)
qed

lemma split_on_no_sep: "c \<notin> set xs \<Longrightarrow> split_on c xs = [xs]"
  by (induction xs) auto

lemma split_on_app: "c \<notin> set xs \<Longrightarrow> split_on c (xs @ c # ys) = xs # split_on c ys"
  by (induction xs) auto

lemma split_score:
  "split_on CHR ''-'' (str_nat a @ ''-'' @ str_nat b) = [str_nat a, str_nat b]"
proof -
  have "CHR ''-'' \<notin> set (str_nat a)" "CHR ''-'' \<notin> set (str_nat b)"
    using str_nat_chars by blast+
  then show ?thesis
    by (simp add: split_on_app split_on_no_sep)
qed

lemma py_round_of_int: "py_round (real_of_int i) = i"
  by (simp add: py_round_def)

lemma py_round_of_nat: "py_round (real n) = int n"
  using py_round_of_int [of "int n"] by simp

lemma mean_replicate: "0 < n \<Longrightarrow> mean (replicate n x) = x"
  by (simp add: mean_def sum_list_replicate)

lemma str_int_nat: "str_int (int n) = str_nat n"
  by (simp add: str_int_def)


lemma split_score':
  "split_on CHR ''-'' (str_nat a @ CHR ''-'' # str_nat b) = [str_nat a, str_nat b]"
  using split_score [of a b] by simp

lemma collect_step_same:
  assumes "predicted_score q = Some (str_nat hg @ ''-'' @ str_nat ag)"
  shows "collect_step q (hs, as) = (hs @ [int hg], as @ [int ag])"
  using assms by (simp add: collect_step_def split_score' py_int_str_nat)

lemma collect_same:
  assumes "\<forall>q \<in> set ps. predicted_score q = Some (str_nat hg @ ''-'' @ str_nat ag)"
  shows "fold collect_step ps (hs, as)
     = (hs @ replicate (length ps) (int hg), as @ replicate (length ps) (int ag))"
  using assms
proof (induction ps arbitrary: hs as)
  case Nil
  then show ?case by simp
next
  case (Cons q ps)
  have q: "predicted_score q = Some (str_nat hg @ ''-'' @ str_nat ag)"
    using Cons.prems by simp
  have "fold collect_step (q # ps) (hs, as) = fold collect_step ps (hs @ [int hg], as @ [int ag])"
    by (simp add: collect_step_same [OF q])
  also have "\<dots> = ((hs @ [int hg]) @ replicate (length ps) (int hg),
                   (as @ [int ag]) @ replicate (length ps) (int ag))"
    using Cons.prems by (intro Cons.IH) simp
  finally show ?case by (simp add: replicate_app_Cons_same)
qed

lemma combine_same:
  assumes "preds \<noteq> []"
    and "\<forall>q \<in> snd ` set preds. predicted_score q = Some (str_nat hg @ ''-'' @ str_nat ag)"
  shows "MixtureOfExpertsModel_combine_scores preds = str_nat hg @ ''-'' @ str_nat ag"
proof -
  have "\<forall>q \<in> set (map snd preds). predicted_score q = Some (str_nat hg @ ''-'' @ str_nat ag)"
    using assms(2) by simp
  then have c: "collect_scores preds =
      (replicate (length preds) (int hg), replicate (length preds) (int ag))"
    unfolding collect_scores_def using collect_same [of "map snd preds" hg ag "[]" "[]"] by simp
  have n: "0 < length preds" using assms(1) by simp
  show ?thesis
    unfolding MixtureOfExpertsModel_combine_scores_def c
    using n assms(1) by (simp add: mean_replicate py_round_of_nat str_int_nat)
qed

lemma weighted_uniform:
  assumes "map_of preds ''poisson'' = Some p1"
      "map_of preds ''negative_binomial'' = Some p2"
      "map_of preds ''hawkes'' = Some p3"
      "map_of preds ''hmm'' = Some p4"
    and "\<forall>q \<in> {p1, p2, p3, p4}. home_probability q = Some h \<and> draw_probability q = Some d
            \<and> away_probability q = Some a"
  shows "weighted_sums [(''poisson'', 0.25), (''negative_binomial'', 0.25), (''hawkes'', 0.25),
                        (''hmm'', 0.25)] preds = (h, d, a)"
  using assms by (simp add: weighted_sums_def weighted_step_def get0_def)

lemma map_of_key:
  assumes "k \<in> fst ` set preds"
  shows "\<exists>q. map_of preds k = Some q \<and> q \<in> snd ` set preds"
proof -
  from assms obtain q where "map_of preds k = Some q"
    by (metis domD dom_map_of_conv_image_fst)
  moreover then have "(k, q) \<in> set preds" by (rule map_of_SomeD)
  ultimately show ?thesis by force
qed


lemma ratio_close:
  fixes h s e :: real
  assumes "0 \<le> h" "h \<le> s" "0 < s" "\<bar>s - 1\<bar> \<le> e"
  shows "\<bar>h / s - h\<bar> \<le> e"
proof -
  have q: "0 \<le> h / s" "h / s \<le> 1" using assms(1-3) by simp_all
  have "h / s - h = (h / s) * (1 - s)" using assms(3) by (simp add: field_simps)
  then have "\<bar>h / s - h\<bar> = \<bar>h / s\<bar> * \<bar>1 - s\<bar>" by (simp only: abs_mult)
  also have "\<dots> = (h / s) * \<bar>1 - s\<bar>" using q(1) by (simp only: abs_of_nonneg)
  finally have "\<bar>h / s - h\<bar> = (h / s) * \<bar>1 - s\<bar>" .
  also have "\<dots> \<le> 1 * \<bar>1 - s\<bar>" using q(2) by (intro mult_right_mono) simp_all
  also have "\<dots> \<le> e" using assms(4) by simp
  finally show ?thesis .
qed

text \<open>
  C6 as stated fails. The combiner divides the three weighted sums by their total, and an
  Outcome Prediction's probabilities sum to 1 only within a tolerance. Four identical
  predictions with the floating-point probabilities 0.7, 0.2 and 0.1 (whose sum is
  \<open>1 - 1 / 2 ^ 55\<close>) are a valid input, and the combined home probability is not 0.7.
\<close>

theorem moe_identical_inputs_not_exact:
  "is_normalized \<lparr> home_probability = Some float_0_7, draw_probability = Some float_0_2,
                    away_probability = Some float_0_1, predicted_score = Some ''2-1'',
                    confidence = None \<rparr>
   \<and> weights MixtureOfExpertsModel_init
       = [(''poisson'', 0.25), (''negative_binomial'', 0.25), (''hawkes'', 0.25), (''hmm'', 0.25)]
   \<and> home_probability (MixtureOfExpertsModel_predict MixtureOfExpertsModel_init
       [(''poisson'', \<lparr> home_probability = Some float_0_7, draw_probability = Some float_0_2,
                         away_probability = Some float_0_1, predicted_score = Some ''2-1'',
                         confidence = None \<rparr>),
        (''negative_binomial'', \<lparr> home_probability = Some float_0_7, draw_probability = Some float_0_2,
                         away_probability = Some float_0_1, predicted_score = Some ''2-1'',
                         confidence = None \<rparr>),
        (''hawkes'', \<lparr> home_probability = Some float_0_7, draw_probability = Some float_0_2,
                         away_probability = Some float_0_1, predicted_score = Some ''2-1'',
                         confidence = None \<rparr>),
        (''hmm'', \<lparr> home_probability = Some float_0_7, draw_probability = Some float_0_2,
                         away_probability = Some float_0_1, predicted_score = Some ''2-1'',
                         confidence = None \<rparr>)])
     \<noteq> Some float_0_7"
  by (simp add: MixtureOfExpertsModel_predict_def MixtureOfExpertsModel_init_def weighted_sums_def
        weighted_step_def get0_def is_normalized_def float_0_7_def float_0_2_def float_0_1_def)

text \<open>
  C6, amended. Let the map hold the same Outcome Prediction \<open>p\<close> under each of the four
  model names (and nothing else), with the uniform weights 0.25; the probabilities of \<open>p\<close>
  are non-negative and sum to 1 within 1e-6, and its scoreline is the text ``H-A'' of two
  natural numbers below \<open>2 ^ 51\<close>. Then each of the combiner's three probabilities is within
  1e-6 of the one of \<open>p\<close> (not exactly equal to it), and its scoreline is that of \<open>p\<close>.
\<close>

theorem moe_identical_inputs:
  assumes w: "weights self = [(''poisson'', 0.25), (''negative_binomial'', 0.25), (''hawkes'', 0.25),
                              (''hmm'', 0.25)]"
    and keys: "fst ` set preds = {''poisson'', ''negative_binomial'', ''hawkes'', ''hmm''}"
    and same: "snd ` set preds = {p}"
    and p: "home_probability p = Some h" "draw_probability p = Some d" "away_probability p = Some a"
      "is_normalized p"
      "predicted_score p = Some (str_nat hg @ ''-'' @ str_nat ag)"
    and range: "hg < 2 ^ 51" "ag < 2 ^ 51"
  shows "\<exists>h' d' a'.
      home_probability (MixtureOfExpertsModel_predict self preds) = Some h'
    \<and> draw_probability (MixtureOfExpertsModel_predict self preds) = Some d'
    \<and> away_probability (MixtureOfExpertsModel_predict self preds) = Some a'
    \<and> \<bar>h' - h\<bar> \<le> 1 / 10 ^ 6 \<and> \<bar>d' - d\<bar> \<le> 1 / 10 ^ 6 \<and> \<bar>a' - a\<bar> \<le> 1 / 10 ^ 6
    \<and> predicted_score (MixtureOfExpertsModel_predict self preds) = predicted_score p"
proof -
  have m: "map_of preds k = Some p" if "k \<in> fst ` set preds" for k
    using map_of_key [OF that] same by auto
  have ws: "weighted_sums (weights self) preds = (h, d, a)"
    unfolding w
  proof (rule weighted_uniform [of _ p p p p])
    show "map_of preds ''poisson'' = Some p" by (rule m) (simp add: keys)
    show "map_of preds ''negative_binomial'' = Some p" by (rule m) (simp add: keys)
    show "map_of preds ''hawkes'' = Some p" by (rule m) (simp add: keys)
    show "map_of preds ''hmm'' = Some p" by (rule m) (simp add: keys)
    show "\<forall>q \<in> {p, p, p, p}. home_probability q = Some h \<and> draw_probability q = Some d
            \<and> away_probability q = Some a"
      using p(1-3) by simp
  qed
  have ne: "preds \<noteq> []"
  proof
    assume "preds = []"
    then have "fst ` set preds = {}" by simp
    then show False unfolding keys by simp
  qed
  have "\<forall>q \<in> snd ` set preds. predicted_score q = Some (str_nat hg @ ''-'' @ str_nat ag)"
    unfolding same using p(5) by simp
  then have cs: "MixtureOfExpertsModel_combine_scores preds = str_nat hg @ ''-'' @ str_nat ag"
    by (rule combine_same [OF ne])
  have n: "0 \<le> h" "0 \<le> d" "0 \<le> a" "\<bar>h + d + a - 1\<bar> \<le> 1 / 10 ^ 6"
    using p(4) unfolding is_normalized_def p(1-3) by simp_all
  have "\<bar>h + d + a - 1\<bar> \<le> 1 / 2" using n(4) by simp
  then have t: "0 < h + d + a" by linarith
  have c: "\<bar>h / (h + d + a) - h\<bar> \<le> 1 / 10 ^ 6" "\<bar>d / (h + d + a) - d\<bar> \<le> 1 / 10 ^ 6"
      "\<bar>a / (h + d + a) - a\<bar> \<le> 1 / 10 ^ 6"
    using n t by (intro ratio_close; simp)+
  show ?thesis
    unfolding MixtureOfExpertsModel_predict_def ws cs
    using t c by (simp add: Let_def p(5))
qed

theorem moe_identical_inputs_witness:
  "home_probability (MixtureOfExpertsModel_predict MixtureOfExpertsModel_init
      [(''poisson'', \<lparr> home_probability = Some 0.5, draw_probability = Some 0.3,
                        away_probability = Some 0.2, predicted_score = Some ''2-1'',
                        confidence = None \<rparr>),
       (''negative_binomial'', \<lparr> home_probability = Some 0.5, draw_probability = Some 0.3,
                        away_probability = Some 0.2, predicted_score = Some ''2-1'',
                        confidence = None \<rparr>),
       (''hawkes'', \<lparr> home_probability = Some 0.5, draw_probability = Some 0.3,
                        away_probability = Some 0.2, predicted_score = Some ''2-1'',
                        confidence = None \<rparr>),
       (''hmm'', \<lparr> home_probability = Some 0.5, draw_probability = Some 0.3,
                        away_probability = Some 0.2, predicted_score = Some ''2-1'',
                        confidence = None \<rparr>)]) = Some 0.5
   \<and> predicted_score (MixtureOfExpertsModel_predict MixtureOfExpertsModel_init
      [(''poisson'', \<lparr> home_probability = Some 0.5, draw_probability = Some 0.3,
                        away_probability = Some 0.2, predicted_score = Some ''2-1'',
                        confidence = None \<rparr>),
       (''negative_binomial'', \<lparr> home_probability = Some 0.5, draw_probability = Some 0.3,
                        away_probability = Some 0.2, predicted_score = Some ''2-1'',
                        confidence = None \<rparr>),
       (''hawkes'', \<lparr> home_probability = Some 0.5, draw_probability = Some 0.3,
                        away_probability = Some 0.2, predicted_score = Some ''2-1'',
                        confidence = None \<rparr>),
       (''hmm'', \<lparr> home_probability = Some 0.5, draw_probability = Some 0.3,
                        away_probability = Some 0.2, predicted_score = Some ''2-1'',
                        confidence = None \<rparr>)]) = Some ''2-1''"
proof -
  let ?p = "\<lparr> home_probability = Some 0.5, draw_probability = Some 0.3,
              away_probability = Some 0.2, predicted_score = Some ''2-1'', confidence = None \<rparr>"
  let ?preds = "[(''poisson'', ?p), (''negative_binomial'', ?p), (''hawkes'', ?p), (''hmm'', ?p)]"
  have w: "weights MixtureOfExpertsModel_init =
      [(''poisson'', 0.25), (''negative_binomial'', 0.25), (''hawkes'', 0.25), (''hmm'', 0.25)]"
    by (simp add: MixtureOfExpertsModel_init_def)
  have keys: "fst ` set ?preds = {''poisson'', ''negative_binomial'', ''hawkes'', ''hmm''}"
    by simp
  have same: "snd ` set ?preds = {?p}"
    by simp
  have sc: "predicted_score ?p = Some (str_nat 2 @ ''-'' @ str_nat 1)"
    by (simp add: str_nat.simps digit_char_def)
  have pr: "home_probability ?p = Some 0.5" "draw_probability ?p = Some 0.3"
    "away_probability ?p = Some 0.2" "is_normalized ?p"
    by (simp_all add: is_normalized_def)
  have rg: "(2::nat) < 2 ^ 51" "(1::nat) < 2 ^ 51" by simp_all
  have v: "home_probability (MixtureOfExpertsModel_predict MixtureOfExpertsModel_init ?preds)
      = Some 0.5"
    by (simp add: MixtureOfExpertsModel_predict_def MixtureOfExpertsModel_init_def
          weighted_sums_def weighted_step_def get0_def)
  from moe_identical_inputs [OF w keys same pr sc rg] v
  show ?thesis by auto
qed

section \<open>Normalized outcome predictions\<close>

lemma normalize_ok:
  assumes "0 \<le> h" "0 \<le> d" "0 \<le> a" "0 < h + d + (a::real)"
  shows "is_normalized \<lparr> home_probability = Some (if h + d + a > 0 then h / (h + d + a) else h),
            draw_probability = Some (if h + d + a > 0 then d / (h + d + a) else d),
            away_probability = Some (if h + d + a > 0 then a / (h + d + a) else a),
            predicted_score = s, confidence = c, \<dots> = m \<rparr>"
proof -
  have "h / (h + d + a) + d / (h + d + a) + a / (h + d + a) = 1"
    using assms(4) by (simp add: add_divide_distrib [symmetric])
  then show ?thesis
    using assms by (simp add: is_normalized_def)
qed

lemma hmm_states: "HMMFormModel_get_state_from_form x \<in> {0, 1, 2}"
  by (simp add: HMMFormModel_get_state_from_form_def)

lemma hmm_normalized:
  assumes "emission_probs self = emission_probs HMMFormModel_init"
  shows "is_normalized (HMMFormModel_predict self features)"
proof -
  define hs where "hs = HMMFormModel_get_state_from_form
     (if features \<noteq> [] then dict_get features ''home_form'' 0.5 else 0.5)"
  define aws where "aws = HMMFormModel_get_state_from_form
     (if features \<noteq> [] then dict_get features ''away_form'' 0.5 else 0.5)"
  have "hs \<in> {0, 1, 2}" "aws \<in> {0, 1, 2}"
    unfolding hs_def aws_def by (rule hmm_states)+
  then consider "hs = 0 \<and> aws = 0" | "hs = 0 \<and> aws = 1" | "hs = 0 \<and> aws = 2"
    | "hs = 1 \<and> aws = 0" | "hs = 1 \<and> aws = 1" | "hs = 1 \<and> aws = 2"
    | "hs = 2 \<and> aws = 0" | "hs = 2 \<and> aws = 1" | "hs = 2 \<and> aws = 2"
    by auto
  then show ?thesis
    unfolding HMMFormModel_predict_def Let_def hs_def [symmetric] aws_def [symmetric] assms
    by cases
      (simp_all add: HMMFormModel_init_def HMMFormModel_predict_score_def is_normalized_def)
qed

lemma hawkes_ratio:
  fixes hi ai :: real and n :: nat
  assumes "(0 \<le> hi \<and> 0 \<le> ai) \<or> hi + ai \<le> 0"
  defines "hp \<equiv> (if (0::nat) < n then (if hi + ai > 0 then hi / (hi + ai) else 0.45) else 0.45)"
    and "ap \<equiv> (if (0::nat) < n then (if hi + ai > 0 then ai / (hi + ai) else 0.45) else 0.45)"
  shows "0 \<le> hp \<and> 0 \<le> ap \<and> 0 \<le> max 0.0 (1.0 - hp - ap) \<and> 0 < hp + max 0.0 (1.0 - hp - ap) + ap"
proof (cases "0 < n \<and> hi + ai > 0")
  case True
  then have nn: "0 \<le> hi" "0 \<le> ai" using assms(1) by auto
  have s: "hi / (hi + ai) + ai / (hi + ai) = 1"
    using True by (simp add: add_divide_distrib [symmetric])
  have "hp = hi / (hi + ai)" "ap = ai / (hi + ai)"
    using True by (simp_all add: hp_def ap_def)
  moreover have "0 \<le> hi / (hi + ai)" "0 \<le> ai / (hi + ai)"
    using nn True by simp_all
  ultimately show ?thesis using s by simp
next
  case False
  then have "hp = 0.45" "ap = 0.45"
    by (auto simp add: hp_def ap_def)
  then show ?thesis by simp
qed

lemma step_lower_bound:
  fixes u c i m :: real
  assumes "0 < u" "u \<le> c" "c < 1" "0 < i" "i \<le> m"
  shows "- ln c / m \<le> - ln u / i"
proof -
  have c0: "0 < c" using assms(1,2) by simp
  have l: "ln u \<le> ln c" using assms(1,2) by simp
  have n: "0 \<le> - ln c" using c0 assms(3) by simp
  have m0: "0 < m" using assms(4,5) by simp
  have "- ln c / m \<le> - ln c / i"
    using n assms(4,5) by (intro divide_left_mono) simp_all
  also have "\<dots> \<le> - ln u / i"
    using l assms(4) by (intro divide_right_mono) simp_all
  finally show ?thesis .
qed

lemma simulate_run_returns_pos:
  fixes b c ml :: real
  assumes b: "0 < b" and a: "0 \<le> alpha self" and c: "0 < c" "c < 1"
  shows "(\<forall>u \<in> sset rs. 0 \<le> u \<and> u \<le> c) \<Longrightarrow> 0 < i \<Longrightarrow> i \<le> b + alpha self
      \<Longrightarrow> ml - r \<le> real n * (- ln c / (b + alpha self))
      \<Longrightarrow> \<exists>goals' rs'. simulate_run self b ml (Fin r) i goals rs = Some (goals', rs')
            \<and> sset rs' \<subseteq> sset rs"
proof (induction n arbitrary: r i goals rs)
  case 0
  then have "\<not> r < ml" by simp
  then show ?case by (subst simulate_run.simps) simp
next
  case (Suc n)
  define d where "d = - ln c / (b + alpha self)"
  have m0: "0 < b + alpha self" using b a by simp
  show ?case
  proof (cases "r < ml")
    case False
    then show ?thesis by (subst simulate_run.simps) simp
  next
    case True
    have u: "0 \<le> shd rs" "shd rs \<le> c" using Suc.prems(1) shd_sset [of rs] by auto
    have s1: "\<forall>u \<in> sset (stl rs). 0 \<le> u \<and> u \<le> c"
      using Suc.prems(1) stl_sset [of _ rs] by blast
    have s2: "\<forall>u \<in> sset (stl (stl rs)). 0 \<le> u \<and> u \<le> c"
      using s1 stl_sset [of _ "stl rs"] by blast
    have ss1: "sset (stl rs) \<subseteq> sset rs" using stl_sset [of _ rs] by blast
    have ss2: "sset (stl (stl rs)) \<subseteq> sset rs" using stl_sset [of _ "stl rs"] ss1 by blast
    show ?thesis
    proof (cases "shd rs = 0")
      case True
      then have "advance (Fin r) (shd rs) i = None"
        using Suc.prems(2) by (simp add: advance_def)
      then show ?thesis
        using \<open>r < ml\<close> ss1 by (subst simulate_run.simps) simp
    next
      case False
      then have up: "0 < shd rs" using u(1) by simp
      define r' where "r' = r + (- ln (shd rs) / i)"
      have adv: "advance (Fin r) (shd rs) i = Some (Fin r')"
        using False Suc.prems(2) by (simp add: advance_def r'_def)
      have "d \<le> - ln (shd rs) / i"
        unfolding d_def using up u(2) c(2) Suc.prems(2,3) by (rule step_lower_bound)
      moreover have "real (Suc n) * d = real n * d + d"
        by (simp add: algebra_simps)
      then have "ml - r \<le> real n * d + d"
        using Suc.prems(4) unfolding d_def [symmetric] by simp
      ultimately have rem: "ml - r' \<le> real n * (- ln c / (b + alpha self))"
        unfolding r'_def d_def by simp
      have i2: "0 < b + alpha self * exp (- beta self * 0)"
          "b + alpha self * exp (- beta self * 0) \<le> b + alpha self"
        using m0 by simp_all
      from Suc.IH [OF s2 i2 rem] obtain g1 q1 where
        c1: "simulate_run self b ml (Fin r') (b + alpha self * exp (- beta self * 0))
               (goals @ [Fin r']) (stl (stl rs)) = Some (g1, q1)" "sset q1 \<subseteq> sset (stl (stl rs))"
        by blast
      from Suc.IH [OF s2 Suc.prems(2,3) rem] obtain g2 q2 where
        c2: "simulate_run self b ml (Fin r') i goals (stl (stl rs)) = Some (g2, q2)"
          "sset q2 \<subseteq> sset (stl (stl rs))"
        by blast
      from Suc.IH [OF s1 Suc.prems(2,3) rem] obtain g3 q3 where
        c3: "simulate_run self b ml (Fin r') i goals (stl rs) = Some (g3, q3)"
          "sset q3 \<subseteq> sset (stl rs)"
        by blast
      show ?thesis
        using \<open>r < ml\<close> adv c1 c2 c3 ss1 ss2
        by (subst simulate_run.simps) auto
    qed
  qed
qed

lemma simulate_run_returns:
  fixes b c ml :: real
  assumes b: "0 \<le> b" and a: "0 \<le> alpha self" and c: "c < 1"
    and rs: "\<forall>u \<in> sset rs. 0 \<le> u \<and> u \<le> c"
  shows "\<exists>goals' rs'. simulate_run self b ml (Fin 0) b [] rs = Some (goals', rs')
            \<and> sset rs' \<subseteq> sset rs"
proof (cases "b = 0")
  case True
  have "sset (stl rs) \<subseteq> sset rs" using stl_sset [of _ rs] by blast
  then show ?thesis
    unfolding True using simulate_run_zero [of self ml rs] by simp
next
  case False
  then have bp: "0 < b" using b by simp
  define c' where "c' = max c (1 / 2)"
  have c': "0 < c'" "c' < 1" using c by (simp_all add: c'_def)
  have rs': "\<forall>u \<in> sset rs. 0 \<le> u \<and> u \<le> c'" using rs by (auto simp add: c'_def)
  define d where "d = - ln c' / (b + alpha self)"
  have "0 < - ln c'" using c' by simp
  moreover have "0 < b + alpha self" using bp a by simp
  ultimately have dp: "0 < d" unfolding d_def by (rule divide_pos_pos)
  obtain n :: nat where n: "ml / d \<le> real n"
    using real_arch_simple by blast
  then have "ml - 0 \<le> real n * (- ln c' / (b + alpha self))"
    using dp unfolding d_def [symmetric] by (simp add: pos_divide_le_eq)
  moreover have "b \<le> b + alpha self" using a by simp
  ultimately show ?thesis
    using simulate_run_returns_pos [OF bp a c' rs' bp] by blast
qed

lemma simulate_runs_returns:
  fixes b c ml :: real
  assumes b: "0 \<le> b" and a: "0 \<le> alpha self" and c: "c < 1"
  shows "\<forall>u \<in> sset rs. 0 \<le> u \<and> u \<le> c \<Longrightarrow>
     \<exists>cs rs'. simulate_runs self b ml n counts rs = Some (cs, rs') \<and> sset rs' \<subseteq> sset rs"
proof (induction n arbitrary: counts rs)
  case 0
  then show ?case by simp
next
  case (Suc n)
  from simulate_run_returns [OF b a c Suc.prems] obtain g rs1 where
    r: "simulate_run self b ml (Fin 0) b [] rs = Some (g, rs1)" "sset rs1 \<subseteq> sset rs"
    by blast
  have "\<forall>u \<in> sset rs1. 0 \<le> u \<and> u \<le> c" using Suc.prems r(2) by blast
  from Suc.IH [OF this, of "counts @ [length g]"] obtain cs rs' where
    "simulate_runs self b ml n (counts @ [length g]) rs1 = Some (cs, rs')" "sset rs' \<subseteq> sset rs1"
    by blast
  then show ?case using r by auto
qed

lemma hawkes_predict_returns:
  assumes l: "0 \<le> lambda0_home self" "0 \<le> lambda0_away self" and a: "0 \<le> alpha self"
    and c: "c < 1" and rs: "\<forall>u \<in> sset rs. 0 \<le> u \<and> u \<le> c"
  shows "\<exists>r rs'. HawkesModel_predict self features match_length rs = Some (r, rs')
     \<and> is_normalized r"
proof -
  from simulate_runs_returns [OF l(1) a c rs, of match_length 100 "[]"] obtain hgs rs1 where
    h: "HawkesModel_simulate_goals self (lambda0_home self) match_length 100 rs = Some (hgs, rs1)"
    and s1: "sset rs1 \<subseteq> sset rs"
    unfolding HawkesModel_simulate_goals_def by blast
  have rs1: "\<forall>u \<in> sset rs1. 0 \<le> u \<and> u \<le> c" using rs s1 by blast
  from simulate_runs_returns [OF l(2) a c rs1, of match_length 100 "[]"] obtain ags rs2 where
    g: "HawkesModel_simulate_goals self (lambda0_away self) match_length 100 rs1 = Some (ags, rs2)"
    unfolding HawkesModel_simulate_goals_def by blast
  define n where "n = length hgs + length ags"
  define hi where "hi = lambda0_home self * match_length"
  define ai where "ai = lambda0_away self * match_length"
  define hp where "hp = (if 0 < n then (if hi + ai > 0 then hi / (hi + ai) else 0.45) else 0.45)"
  define ap where "ap = (if 0 < n then (if hi + ai > 0 then ai / (hi + ai) else 0.45) else 0.45)"
  define dp where "dp = max 0.0 (1.0 - hp - ap)"
  define r where "r = \<lparr> home_probability = Some (if hp + dp + ap > 0 then hp / (hp + dp + ap) else hp),
            draw_probability = Some (if hp + dp + ap > 0 then dp / (hp + dp + ap) else dp),
            away_probability = Some (if hp + dp + ap > 0 then ap / (hp + dp + ap) else ap),
            predicted_score = Some (str_nat (length hgs) @ ''-'' @ str_nat (length ags)),
            confidence = None, home_goals = length hgs, away_goals = length ags \<rparr>"
  have e: "HawkesModel_predict self features match_length rs = Some (r, rs2)"
    unfolding r_def dp_def hp_def ap_def hi_def ai_def n_def
    by (simp only: HawkesModel_predict_def h g Let_def option.case prod.case)
  have sg: "(0 \<le> hi \<and> 0 \<le> ai) \<or> hi + ai \<le> 0"
  proof (cases "0 \<le> match_length")
    case True
    then show ?thesis unfolding hi_def ai_def using l by simp
  next
    case False
    then have "hi \<le> 0" "ai \<le> 0"
      unfolding hi_def ai_def using l by (simp_all add: mult_nonneg_nonpos)
    then show ?thesis by simp
  qed
  have p: "0 \<le> hp \<and> 0 \<le> ap \<and> 0 \<le> dp \<and> 0 < hp + dp + ap"
    unfolding hp_def ap_def dp_def using hawkes_ratio [OF sg, of n] by blast
  have "is_normalized r"
    unfolding r_def using p by (intro normalize_ok) simp_all
  then show ?thesis using e by blast
qed

lemma outcome_inner:
  assumes "\<forall>j \<in> set js. 0 \<le> hp ! i * ap ! j" "0 \<le> a" "0 \<le> b" "0 \<le> c"
  shows "case fold (outcome_step hp ap i) js (a, b, c) of
           (a', b', c') \<Rightarrow> 0 \<le> a' \<and> 0 \<le> b' \<and> 0 \<le> c'
              \<and> a' + b' + c' = a + b + c + hp ! i * sum_list (map ((!) ap) js)"
  using assms
proof (induction js arbitrary: a b c)
  case Nil
  then show ?case by simp
next
  case (Cons j js)
  have p: "0 \<le> hp ! i * ap ! j" using Cons.prems(1) by simp
  have r: "\<forall>j \<in> set js. 0 \<le> hp ! i * ap ! j" using Cons.prems(1) by simp
  obtain a1 b1 c1 where s: "outcome_step hp ap i j (a, b, c) = (a1, b1, c1)"
    by (cases "outcome_step hp ap i j (a, b, c)") auto
  then have n: "0 \<le> a1 \<and> 0 \<le> b1 \<and> 0 \<le> c1 \<and> a1 + b1 + c1 = a + b + c + hp ! i * ap ! j"
    using p Cons.prems(2-4) by (auto simp add: outcome_step_def Let_def split: if_splits)
  from Cons.IH [OF r, of a1 b1 c1] n
  show ?case
    by (simp add: s algebra_simps split: prod.splits)
qed

lemma outcome_outer:
  assumes "\<forall>i \<in> set is. \<forall>j \<in> set js. 0 \<le> hp ! i * ap ! j" "0 \<le> a" "0 \<le> b" "0 \<le> c"
  shows "case fold (\<lambda>i. fold (outcome_step hp ap i) js) is (a, b, c) of
           (a', b', c') \<Rightarrow> 0 \<le> a' \<and> 0 \<le> b' \<and> 0 \<le> c'
              \<and> a' + b' + c' = a + b + c
                   + sum_list (map ((!) hp) is) * sum_list (map ((!) ap) js)"
  using assms
proof (induction "is" arbitrary: a b c)
  case Nil
  then show ?case by simp
next
  case (Cons i "is")
  have p: "\<forall>j \<in> set js. 0 \<le> hp ! i * ap ! j" using Cons.prems(1) by simp
  have r: "\<forall>i \<in> set is. \<forall>j \<in> set js. 0 \<le> hp ! i * ap ! j" using Cons.prems(1) by simp
  obtain a1 b1 c1 where s: "fold (outcome_step hp ap i) js (a, b, c) = (a1, b1, c1)"
    by (cases "fold (outcome_step hp ap i) js (a, b, c)") auto
  have n: "0 \<le> a1 \<and> 0 \<le> b1 \<and> 0 \<le> c1
      \<and> a1 + b1 + c1 = a + b + c + hp ! i * sum_list (map ((!) ap) js)"
    using outcome_inner [OF p Cons.prems(2-4)] unfolding s by simp
  from Cons.IH [OF r, of a1 b1 c1] n
  show ?case
    by (simp add: s algebra_simps split: prod.splits)
qed

lemma outcome_sums_props:
  assumes "length hp = n" "length ap = n" "\<forall>x \<in> set hp. 0 \<le> x" "\<forall>x \<in> set ap. 0 \<le> x"
    and "outcome_sums n hp ap = (hw, d, aw)"
  shows "0 \<le> hw \<and> 0 \<le> d \<and> 0 \<le> aw \<and> hw + d + aw = sum_list hp * sum_list ap"
proof -
  have nn: "\<forall>i \<in> set [0..<n]. \<forall>j \<in> set [0..<n]. 0 \<le> hp ! i * ap ! j"
    using assms(1-4) by (simp add: mult_nonneg_nonneg)
  have h: "map ((!) hp) [0..<n] = hp" "map ((!) ap) [0..<n] = ap"
    using assms(1,2) map_nth [of hp] map_nth [of ap] by auto
  from outcome_outer [OF nn, of 0 0 0] show ?thesis
    using assms(5) unfolding outcome_sums_def h by simp
qed

lemma poisson_normalized:
  assumes r: "r = PoissonModel_predict pmf self features"
    and nn: "\<forall>k < poisson_model.max_score self. 0 \<le> pmf k (home_lambda_out r) \<and> 0 \<le> pmf k (away_lambda_out r)"
    and hs: "0 < sum_list (map (\<lambda>k. pmf k (home_lambda_out r)) [0..<poisson_model.max_score self])"
    and as: "0 < sum_list (map (\<lambda>k. pmf k (away_lambda_out r)) [0..<poisson_model.max_score self])"
  shows "is_normalized r"
proof -
  define hl where "hl = (if features \<noteq> [] then home_lambda self * (0.5 + dict_get features ''home_form'' 0.5)
                else home_lambda self)"
  define al where "al = (if features \<noteq> [] then away_lambda self * (0.5 + dict_get features ''away_form'' 0.5)
                else away_lambda self)"
  define hp where "hp = map (\<lambda>k. pmf k hl) [0..<poisson_model.max_score self]"
  define ap where "ap = map (\<lambda>k. pmf k al) [0..<poisson_model.max_score self]"
  obtain hw d aw where os: "outcome_sums (poisson_model.max_score self) hp ap = (hw, d, aw)"
    by (cases "outcome_sums (poisson_model.max_score self) hp ap") auto
  have req: "r = \<lparr> home_probability = Some (if hw + d + aw > 0 then hw / (hw + d + aw) else hw),
            draw_probability = Some (if hw + d + aw > 0 then d / (hw + d + aw) else d),
            away_probability = Some (if hw + d + aw > 0 then aw / (hw + d + aw) else aw),
            predicted_score = Some (get_most_likely_score hl al),
            confidence = None, home_lambda_out = hl, away_lambda_out = al \<rparr>"
    unfolding r PoissonModel_predict_def Let_def hl_def [symmetric] al_def [symmetric]
      hp_def [symmetric] ap_def [symmetric] os
    by (simp only: prod.case)
  have ho: "home_lambda_out r = hl" "away_lambda_out r = al"
    unfolding req by simp_all
  have "\<forall>x \<in> set hp. 0 \<le> x" "\<forall>x \<in> set ap. 0 \<le> x"
    using nn unfolding ho hp_def ap_def by auto
  then have p: "0 \<le> hw \<and> 0 \<le> d \<and> 0 \<le> aw \<and> hw + d + aw = sum_list hp * sum_list ap"
    by (intro outcome_sums_props [OF _ _ _ _ os]) (simp_all add: hp_def ap_def)
  have "0 < sum_list hp * sum_list ap"
    using hs as unfolding ho hp_def ap_def by (rule mult_pos_pos)
  then have "0 < hw + d + aw" using p by simp
  then show ?thesis
    unfolding req using p by (intro normalize_ok) simp_all
qed

lemma nb_normalized:
  assumes adj: "NegativeBinomialModel_adjusted_mu self features = (hm, am)"
    and nz: "home_alpha self + hm \<noteq> 0" "away_alpha self + am \<noteq> 0"
    and nn: "\<forall>k < nb_model.max_score self.
        0 \<le> pmf k (home_alpha self) (home_alpha self / (home_alpha self + hm))
      \<and> 0 \<le> pmf k (away_alpha self) (away_alpha self / (away_alpha self + am))"
    and hs: "0 < sum_list (map (\<lambda>k. pmf k (home_alpha self)
                (home_alpha self / (home_alpha self + hm))) [0..<nb_model.max_score self])"
    and as: "0 < sum_list (map (\<lambda>k. pmf k (away_alpha self)
                (away_alpha self / (away_alpha self + am))) [0..<nb_model.max_score self])"
  shows "is_normalized (NegativeBinomialModel_predict pmf self features)"
proof -
  define hp where "hp = map (\<lambda>k. pmf k (home_alpha self) (home_alpha self / (home_alpha self + hm)))
                          [0..<nb_model.max_score self]"
  define ap where "ap = map (\<lambda>k. pmf k (away_alpha self) (away_alpha self / (away_alpha self + am)))
                          [0..<nb_model.max_score self]"
  obtain hw d aw where os: "outcome_sums (nb_model.max_score self) hp ap = (hw, d, aw)"
    by (cases "outcome_sums (nb_model.max_score self) hp ap") auto
  have z: "(home_alpha self + hm = 0 \<or> away_alpha self + am = 0) = False"
    using nz by simp
  have req: "NegativeBinomialModel_predict pmf self features =
          \<lparr> home_probability = Some (if hw + d + aw > 0 then hw / (hw + d + aw) else hw),
            draw_probability = Some (if hw + d + aw > 0 then d / (hw + d + aw) else d),
            away_probability = Some (if hw + d + aw > 0 then aw / (hw + d + aw) else aw),
            predicted_score = Some (get_most_likely_score hm am),
            confidence = None, home_mu_out = hm, away_mu_out = am,
            home_alpha_out = home_alpha self, away_alpha_out = away_alpha self \<rparr>"
    unfolding NegativeBinomialModel_predict_def adj prod.case Let_def z if_False
      hp_def [symmetric] ap_def [symmetric] os
    by (simp only: prod.case)
  have "\<forall>x \<in> set hp. 0 \<le> x" "\<forall>x \<in> set ap. 0 \<le> x"
    using nn unfolding hp_def ap_def by auto
  then have p: "0 \<le> hw \<and> 0 \<le> d \<and> 0 \<le> aw \<and> hw + d + aw = sum_list hp * sum_list ap"
    by (intro outcome_sums_props [OF _ _ _ _ os]) (simp_all add: hp_def ap_def)
  have "0 < sum_list hp * sum_list ap"
    using hs as unfolding hp_def ap_def by (rule mult_pos_pos)
  then have "0 < hw + d + aw" using p by simp
  then show ?thesis
    unfolding req using p by (intro normalize_ok) simp_all
qed

lemma weighted_fold_nonneg:
  assumes "\<forall>(k, w) \<in> set ws. 0 \<le> w"
    and "\<forall>(k, q) \<in> set preds. 0 \<le> get0 (home_probability q) \<and> 0 \<le> get0 (draw_probability q)
            \<and> 0 \<le> get0 (away_probability q)"
    and "0 \<le> a" "0 \<le> b" "0 \<le> c"
  shows "case fold (weighted_step preds) ws (a, b, c) of (a', b', c') \<Rightarrow> 0 \<le> a' \<and> 0 \<le> b' \<and> 0 \<le> c'"
  using assms(1,3-5)
proof (induction ws arbitrary: a b c)
  case Nil
  then show ?case by simp
next
  case (Cons kw ws)
  obtain k w where kw: "kw = (k, w)" by (cases kw) auto
  have w: "0 \<le> w" using Cons.prems(1) kw by simp
  have r: "\<forall>(k, w) \<in> set ws. 0 \<le> w" using Cons.prems(1) by simp
  obtain a1 b1 c1 where s: "weighted_step preds (k, w) (a, b, c) = (a1, b1, c1)"
    by (cases "weighted_step preds (k, w) (a, b, c)") auto
  have n: "0 \<le> a1 \<and> 0 \<le> b1 \<and> 0 \<le> c1"
  proof (cases "map_of preds k")
    case None
    then show ?thesis using s Cons.prems(2-4) by (simp add: weighted_step_def)
  next
    case (Some q)
    then have "(k, q) \<in> set preds" by (rule map_of_SomeD)
    then have "0 \<le> get0 (home_probability q) \<and> 0 \<le> get0 (draw_probability q)
            \<and> 0 \<le> get0 (away_probability q)"
      using assms(2) by auto
    then show ?thesis
      using s Some w Cons.prems(2-4) by (auto simp add: weighted_step_def)
  qed
  from Cons.IH [OF r, of a1 b1 c1] n show ?case
    by (simp add: kw s)
qed

lemma moe_normalized:
  assumes "\<forall>(k, w) \<in> set (weights self). 0 \<le> w"
    and "\<forall>(k, q) \<in> set preds. 0 \<le> get0 (home_probability q) \<and> 0 \<le> get0 (draw_probability q)
            \<and> 0 \<le> get0 (away_probability q)"
    and ws: "weighted_sums (weights self) preds = (wh, wd, wa)"
    and t: "0 < wh + wd + wa"
  shows "is_normalized (MixtureOfExpertsModel_predict self preds)"
proof -
  have p: "0 \<le> wh \<and> 0 \<le> wd \<and> 0 \<le> wa"
    using weighted_fold_nonneg [OF assms(1,2), of 0 0 0] ws
    unfolding weighted_sums_def by simp
  show ?thesis
    unfolding MixtureOfExpertsModel_predict_def ws Let_def prod.case
    using p t by (intro normalize_ok) simp_all
qed

lemma poisson_out:
  "home_lambda_out (PoissonModel_predict pmf self features) =
     (if features \<noteq> [] then home_lambda self * (0.5 + dict_get features ''home_form'' 0.5)
      else home_lambda self)
   \<and> away_lambda_out (PoissonModel_predict pmf self features) =
     (if features \<noteq> [] then away_lambda self * (0.5 + dict_get features ''away_form'' 0.5)
      else away_lambda self)"
  unfolding PoissonModel_predict_def Let_def by (simp split: prod.split)

lemma sum_list_pos_first:
  fixes f :: "nat \<Rightarrow> real"
  assumes "0 < n" "0 < f 0" "\<forall>k < n. 0 \<le> f k"
  shows "0 < sum_list (map f [0..<n])"
proof -
  have "[0..<n] = 0 # [1..<n]" using assms(1) by (simp add: upt_conv_Cons)
  moreover have "0 \<le> sum_list (map f [1..<n])"
    using assms(3) by (intro sum_list_nonneg) auto
  ultimately show ?thesis using assms(2) by simp
qed

lemma poisson_pmf_nonneg: "0 \<le> mu \<Longrightarrow> 0 \<le> poisson_pmf k mu"
  by (simp add: poisson_pmf_def)

lemma poisson_pmf_0_pos: "0 < poisson_pmf 0 mu"
  by (simp add: poisson_pmf_def)

lemma nbinom_pmf_one: "0 < p \<Longrightarrow> nbinom_pmf k 1 p = p * (1 - p) ^ k"
proof -
  assume "0 < p"
  have "((1 + real k - 1) gchoose k) = (of_nat k gchoose k :: real)" by simp
  also have "\<dots> = of_nat (k choose k)" by (rule binomial_gbinomial [symmetric])
  finally show ?thesis using \<open>0 < p\<close> by (simp add: nbinom_pmf_def)
qed

text \<open>
  C1 as stated fails: every predict renormalizes only under the guard \<open>if total > 0\<close>. The
  combiner skips the models that are absent from its input map; on the empty map its three
  weighted sums are 0, the guard is false and it returns the probabilities 0, 0, 0, which
  do not sum to 1.
\<close>

theorem moe_empty_map_not_normalized:
  "\<not> is_normalized (MixtureOfExpertsModel_predict MixtureOfExpertsModel_init [])"
  by (simp add: MixtureOfExpertsModel_predict_def MixtureOfExpertsModel_init_def weighted_sums_def
        weighted_step_def is_normalized_def)

text \<open>
  C1, amended. The three probabilities of the returned Outcome Prediction are non-negative
  and sum to 1 (within 1e-6; in exact arithmetic, to 1)
  \<^item> for the form model, on every feature map (with the emission table of the constructor);
  \<^item> for the Poisson model, whenever the mass function's values at the scores
    0 .. max_score - 1 are non-negative and have a positive sum for each side;
  \<^item> for the negative-binomial model, under the same condition on its mass function,
    when \<open>alpha + mu \<noteq> 0\<close> for each side (\<open>mu\<close> adjusted with the features);
  \<^item> for the Hawkes model, whenever both base intensities and the excitation \<open>alpha\<close> are
    non-negative and the uniform draws are in \<open>[0, c]\<close> for some \<open>c < 1\<close> (the draws of
    \<open>np.random.uniform()\<close> are multiples of \<open>2 ^ -53\<close> below 1): predict then returns, on
    every feature map and match length (each step advances the clock, in exact arithmetic,
    by at least \<open>-ln c / (base + alpha)\<close>, so every simulated run ends);
  \<^item> for the combiner, whenever the weights and the input probabilities are non-negative
    and the sum of the three weighted sums is positive.
\<close>

theorem outcome_predictions_normalized:
  "(emission_probs hmm = emission_probs HMMFormModel_init \<longrightarrow>
      is_normalized (HMMFormModel_predict hmm features))
   \<and> ((\<forall>k < poisson_model.max_score pm.
           0 \<le> pmf k (home_lambda_out (PoissonModel_predict pmf pm features))
         \<and> 0 \<le> pmf k (away_lambda_out (PoissonModel_predict pmf pm features)))
       \<and> 0 < sum_list (map (\<lambda>k. pmf k (home_lambda_out (PoissonModel_predict pmf pm features)))
                 [0..<poisson_model.max_score pm])
       \<and> 0 < sum_list (map (\<lambda>k. pmf k (away_lambda_out (PoissonModel_predict pmf pm features)))
                 [0..<poisson_model.max_score pm])
       \<longrightarrow> is_normalized (PoissonModel_predict pmf pm features))
   \<and> ((case NegativeBinomialModel_adjusted_mu nb features of
          (hm, am) \<Rightarrow>
            home_alpha nb + hm \<noteq> 0 \<and> away_alpha nb + am \<noteq> 0
            \<and> (\<forall>k < nb_model.max_score nb.
                  0 \<le> npmf k (home_alpha nb) (home_alpha nb / (home_alpha nb + hm))
                \<and> 0 \<le> npmf k (away_alpha nb) (away_alpha nb / (away_alpha nb + am)))
            \<and> 0 < sum_list (map (\<lambda>k. npmf k (home_alpha nb) (home_alpha nb / (home_alpha nb + hm)))
                      [0..<nb_model.max_score nb])
            \<and> 0 < sum_list (map (\<lambda>k. npmf k (away_alpha nb) (away_alpha nb / (away_alpha nb + am)))
                      [0..<nb_model.max_score nb]))
       \<longrightarrow> is_normalized (NegativeBinomialModel_predict npmf nb features))
   \<and> (0 \<le> lambda0_home hk \<and> 0 \<le> lambda0_away hk \<and> 0 \<le> alpha hk
       \<and> c < 1 \<and> (\<forall>u \<in> sset rs. 0 \<le> u \<and> u \<le> c)
       \<longrightarrow> (\<exists>r rs'. HawkesModel_predict hk features match_length rs = Some (r, rs')
              \<and> is_normalized r))
   \<and> ((\<forall>(k, w) \<in> set (weights moe). 0 \<le> w)
       \<and> (\<forall>(k, q) \<in> set preds. 0 \<le> get0 (home_probability q) \<and> 0 \<le> get0 (draw_probability q)
              \<and> 0 \<le> get0 (away_probability q))
       \<and> weighted_sums (weights moe) preds = (wh, wd, wa) \<and> 0 < wh + wd + wa
       \<longrightarrow> is_normalized (MixtureOfExpertsModel_predict moe preds))"
proof -
  obtain hm am where adj: "NegativeBinomialModel_adjusted_mu nb features = (hm, am)"
    by (cases "NegativeBinomialModel_adjusted_mu nb features") auto
  have n: "(case NegativeBinomialModel_adjusted_mu nb features of
          (hm, am) \<Rightarrow>
            home_alpha nb + hm \<noteq> 0 \<and> away_alpha nb + am \<noteq> 0
            \<and> (\<forall>k < nb_model.max_score nb.
                  0 \<le> npmf k (home_alpha nb) (home_alpha nb / (home_alpha nb + hm))
                \<and> 0 \<le> npmf k (away_alpha nb) (away_alpha nb / (away_alpha nb + am)))
            \<and> 0 < sum_list (map (\<lambda>k. npmf k (home_alpha nb) (home_alpha nb / (home_alpha nb + hm)))
                      [0..<nb_model.max_score nb])
            \<and> 0 < sum_list (map (\<lambda>k. npmf k (away_alpha nb) (away_alpha nb / (away_alpha nb + am)))
                      [0..<nb_model.max_score nb]))
       \<longrightarrow> is_normalized (NegativeBinomialModel_predict npmf nb features)"
    unfolding adj prod.case using nb_normalized [OF adj, of npmf] by blast
  have h: "0 \<le> lambda0_home hk \<and> 0 \<le> lambda0_away hk \<and> 0 \<le> alpha hk
       \<and> c < 1 \<and> (\<forall>u \<in> sset rs. 0 \<le> u \<and> u \<le> c)
       \<longrightarrow> (\<exists>r rs'. HawkesModel_predict hk features match_length rs = Some (r, rs')
              \<and> is_normalized r)"
    using hawkes_predict_returns [of hk c rs features match_length] by blast
  have rest: "(emission_probs hmm = emission_probs HMMFormModel_init \<longrightarrow>
      is_normalized (HMMFormModel_predict hmm features))
   \<and> ((\<forall>k < poisson_model.max_score pm.
           0 \<le> pmf k (home_lambda_out (PoissonModel_predict pmf pm features))
         \<and> 0 \<le> pmf k (away_lambda_out (PoissonModel_predict pmf pm features)))
       \<and> 0 < sum_list (map (\<lambda>k. pmf k (home_lambda_out (PoissonModel_predict pmf pm features)))
                 [0..<poisson_model.max_score pm])
       \<and> 0 < sum_list (map (\<lambda>k. pmf k (away_lambda_out (PoissonModel_predict pmf pm features)))
                 [0..<poisson_model.max_score pm])
       \<longrightarrow> is_normalized (PoissonModel_predict pmf pm features))
   \<and> ((\<forall>(k, w) \<in> set (weights moe). 0 \<le> w)
       \<and> (\<forall>(k, q) \<in> set preds. 0 \<le> get0 (home_probability q) \<and> 0 \<le> get0 (draw_probability q)
              \<and> 0 \<le> get0 (away_probability q))
       \<and> weighted_sums (weights moe) preds = (wh, wd, wa) \<and> 0 < wh + wd + wa
       \<longrightarrow> is_normalized (MixtureOfExpertsModel_predict moe preds))"
    using hmm_normalized [of hmm features]
      poisson_normalized [OF refl, of pm pmf features]
      moe_normalized [of moe preds wh wd wa]
    by blast
  from rest n h show ?thesis by (intro conjI) (elim conjE, assumption)+
qed

theorem outcome_predictions_normalized_witness:
  "is_normalized (HMMFormModel_predict HMMFormModel_init [])
   \<and> is_normalized (PoissonModel_predict poisson_pmf PoissonModel_init [])
   \<and> is_normalized (NegativeBinomialModel_predict nbinom_pmf NegativeBinomialModel_init [])
   \<and> (case HawkesModel_predict HawkesModel_init [] 90 (sconst (exp (- 5))) of
         None \<Rightarrow> False | Some (r, _) \<Rightarrow> is_normalized r)
   \<and> is_normalized (MixtureOfExpertsModel_predict MixtureOfExpertsModel_init
        [(''poisson'', \<lparr> home_probability = Some 0.5, draw_probability = Some 0.3,
                          away_probability = Some 0.2, predicted_score = Some ''2-1'',
                          confidence = None \<rparr>)])"
proof -
  let ?p = "\<lparr> home_probability = Some 0.5, draw_probability = Some 0.3,
              away_probability = Some 0.2, predicted_score = Some ''2-1'', confidence = None \<rparr>"
  note T = outcome_predictions_normalized [where hmm = HMMFormModel_init and features = "[]"
      and pm = PoissonModel_init and pmf = poisson_pmf
      and nb = NegativeBinomialModel_init and npmf = nbinom_pmf
      and hk = HawkesModel_init and match_length = 90 and rs = "sconst (exp (- 5))"
      and c = "exp (- 5)" and moe = MixtureOfExpertsModel_init
      and preds = "[(''poisson'', ?p)]" and wh = "1 / 8" and wd = "3 / 40" and wa = "1 / 20"]
  have adj: "NegativeBinomialModel_adjusted_mu NegativeBinomialModel_init [] = (1.5, 1.2)"
    by (simp add: NegativeBinomialModel_adjusted_mu_def NegativeBinomialModel_init_def)
  have np: "home_alpha NegativeBinomialModel_init = 1" "away_alpha NegativeBinomialModel_init = 1"
      "nb_model.max_score NegativeBinomialModel_init = 10"
    by (simp_all add: NegativeBinomialModel_init_def)
  have nbv: "nbinom_pmf k 1 (1 / (1 + 1.5)) = 2 / 5 * (3 / 5) ^ k"
      "nbinom_pmf k 1 (1 / (1 + 1.2)) = 5 / 11 * (6 / 11) ^ k" for k
    by (simp_all add: nbinom_pmf_one)
  have "0 < sum_list (map (\<lambda>k. nbinom_pmf k 1 (1 / (1 + 1.5))) [0..<10])"
      "0 < sum_list (map (\<lambda>k. nbinom_pmf k 1 (1 / (1 + 1.2))) [0..<10])"
    unfolding nbv by (rule sum_list_pos_first; simp)+
  moreover have "\<forall>k < 10. 0 \<le> nbinom_pmf k 1 (1 / (1 + 1.5)) \<and> 0 \<le> nbinom_pmf k 1 (1 / (1 + 1.2))"
    unfolding nbv by simp
  moreover have "(1::real) + 1.5 \<noteq> 0" "(1::real) + 1.2 \<noteq> 0" by simp_all
  ultimately have c5: "is_normalized (NegativeBinomialModel_predict nbinom_pmf NegativeBinomialModel_init [])"
    using T unfolding adj prod.case np by blast
  have po: "home_lambda_out (PoissonModel_predict poisson_pmf PoissonModel_init []) = 1.5"
      "away_lambda_out (PoissonModel_predict poisson_pmf PoissonModel_init []) = 1.2"
    using poisson_out [of poisson_pmf PoissonModel_init "[]"]
    by (simp_all add: PoissonModel_init_def)
  have ms: "poisson_model.max_score PoissonModel_init = 10"
    by (simp add: PoissonModel_init_def)
  have c1: "is_normalized (HMMFormModel_predict HMMFormModel_init [])"
    using T by blast
  have "0 < sum_list (map (\<lambda>k. poisson_pmf k 1.5) [0..<10])"
      "0 < sum_list (map (\<lambda>k. poisson_pmf k 1.2) [0..<10])"
    by (rule sum_list_pos_first; simp add: poisson_pmf_nonneg poisson_pmf_0_pos)+
  moreover have "\<forall>k < 10. 0 \<le> poisson_pmf k 1.5 \<and> 0 \<le> poisson_pmf k 1.2"
    by (simp add: poisson_pmf_nonneg)
  ultimately have c2: "is_normalized (PoissonModel_predict poisson_pmf PoissonModel_init [])"
    using T unfolding po ms by blast
  have hp: "0 \<le> lambda0_home HawkesModel_init" "0 \<le> lambda0_away HawkesModel_init"
      "0 \<le> alpha HawkesModel_init" "exp (- 5) < (1::real)"
      "\<forall>u \<in> sset (sconst (exp (- 5) :: real)). 0 \<le> u \<and> u \<le> exp (- 5)"
    by (simp_all add: HawkesModel_init_def)
  then have "\<exists>r rs'. HawkesModel_predict HawkesModel_init [] 90 (sconst (exp (- 5))) = Some (r, rs')
      \<and> is_normalized r"
    using T by blast
  then have c3: "case HawkesModel_predict HawkesModel_init [] 90 (sconst (exp (- 5))) of
         None \<Rightarrow> False | Some (r, _) \<Rightarrow> is_normalized r"
    by auto
  have w: "\<forall>(k, w) \<in> set (weights MixtureOfExpertsModel_init). 0 \<le> w"
    by (simp add: MixtureOfExpertsModel_init_def)
  have q: "\<forall>(k, q) \<in> set [(''poisson'', ?p)]. 0 \<le> get0 (home_probability q)
      \<and> 0 \<le> get0 (draw_probability q) \<and> 0 \<le> get0 (away_probability q)"
    by (simp add: get0_def)
  have s: "weighted_sums (weights MixtureOfExpertsModel_init) [(''poisson'', ?p)] = (1 / 8, 3 / 40, 1 / 20)"
    by (simp add: weighted_sums_def weighted_step_def MixtureOfExpertsModel_init_def get0_def)
  have t: "(0::real) < 1 / 8 + 3 / 40 + 1 / 20" by simp
  have c4: "is_normalized (MixtureOfExpertsModel_predict MixtureOfExpertsModel_init [(''poisson'', ?p)])"
    using T w q s t by blast
  show ?thesis
    using c1 c2 c3 c4 c5 by simp
qed

end
